theory Spec2Isabelle
  imports Main "HOL-Library.AList"
begin

section \<open>Python values and the operations the module applies to them\<close>

text \<open>
  The event payload of \<^verbatim>\<open>sentry/stacktraces.py\<close> is a decoded JSON document: nested
  dictionaries, lists, strings, numbers and \<^verbatim>\<open>None\<close>. Dictionaries are association
  lists with string keys; a lookup takes the first entry of a key.
\<close>

datatype pyval =
    PNone
  | PBool bool
  | PInt int
  | PStr string
  | PList "pyval list"
  | PDict "(string \<times> pyval) list"

datatype error = KeyError | TypeError | AttributeError

definition bindE :: "error + 'a \<Rightarrow> ('a \<Rightarrow> error + 'b) \<Rightarrow> error + 'b" where
  "bindE m f = (case m of Inl e \<Rightarrow> Inl e | Inr x \<Rightarrow> f x)"

text \<open>Truth value of an object, as \<^verbatim>\<open>if x:\<close> and \<^verbatim>\<open>x or y\<close> test it.\<close>

fun truthy :: "pyval \<Rightarrow> bool" where
  "truthy PNone = False"
| "truthy (PBool b) = b"
| "truthy (PInt i) = (i \<noteq> 0)"
| "truthy (PStr s) = (s \<noteq> [])"
| "truthy (PList xs) = (xs \<noteq> [])"
| "truthy (PDict d) = (d \<noteq> [])"

text \<open>\<^verbatim>\<open>x.get(k)\<close>: only dictionaries have the method.\<close>

fun py_get :: "pyval \<Rightarrow> string \<Rightarrow> error + pyval" where
  "py_get (PDict d) k = Inr (case map_of d k of None \<Rightarrow> PNone | Some v \<Rightarrow> v)"
| "py_get _ k = Inl AttributeError"

text \<open>\<^verbatim>\<open>x[k]\<close> with a string key.\<close>

fun py_item :: "pyval \<Rightarrow> string \<Rightarrow> error + pyval" where
  "py_item (PDict d) k = (case map_of d k of None \<Rightarrow> Inl KeyError | Some v \<Rightarrow> Inr v)"
| "py_item _ k = Inl TypeError"

text \<open>\<^verbatim>\<open>for x in v\<close>: a dictionary yields its keys, a string its characters.\<close>

fun py_iter :: "pyval \<Rightarrow> error + pyval list" where
  "py_iter (PList xs) = Inr xs"
| "py_iter (PStr s) = Inr (map (\<lambda>c. PStr [c]) s)"
| "py_iter (PDict d) = Inr (map (\<lambda>kv. PStr (fst kv)) d)"
| "py_iter _ = Inl TypeError"

fun py_len :: "pyval \<Rightarrow> error + int" where
  "py_len (PList xs) = Inr (int (length xs))"
| "py_len (PStr s) = Inr (int (length s))"
| "py_len (PDict d) = Inr (int (length d))"
| "py_len _ = Inl TypeError"

text \<open>Lists and dictionaries cannot be members of a \<^verbatim>\<open>set\<close>.\<close>

fun hashable :: "pyval \<Rightarrow> bool" where
  "hashable (PList xs) = False"
| "hashable (PDict d) = False"
| "hashable _ = True"

text \<open>\<^verbatim>\<open>d[k] = v\<close>, and the update of the object stored under a key or at an index.\<close>

definition dict_set :: "string \<Rightarrow> pyval \<Rightarrow> pyval \<Rightarrow> pyval" where
  "dict_set k v x = (case x of PDict d \<Rightarrow> PDict (AList.update k v d) | _ \<Rightarrow> x)"

definition dict_map :: "string \<Rightarrow> (pyval \<Rightarrow> pyval) \<Rightarrow> pyval \<Rightarrow> pyval" where
  "dict_map k f x = (case x of PDict d \<Rightarrow> PDict (AList.map_entry k f d) | _ \<Rightarrow> x)"

definition list_map :: "nat \<Rightarrow> (pyval \<Rightarrow> pyval) \<Rightarrow> pyval \<Rightarrow> pyval" where
  "list_map i f x =
     (case x of PList xs \<Rightarrow> PList (if i < length xs then xs[i := f (xs ! i)] else xs) | _ \<Rightarrow> x)"

section \<open>Stack-trace records\<close>

text \<open>
  \<^verbatim>\<open>StacktraceInfo\<close> holds references to the stack trace and to its container, both
  objects inside the payload. The model keeps their values and, in \<open>ref\<close>, the place of
  the payload where they live, so that the in-place updates of \<^verbatim>\<open>process_stacktraces\<close>
  can be written back. A \<^verbatim>\<open>set\<close> of platforms is a list without duplicates.
\<close>

datatype ref = InException nat | TopLevel | InThread nat

record stacktrace_info =
  stacktrace :: pyval
  container :: pyval
  platforms :: "pyval list"
  ref :: ref

section \<open>Processors\<close>

text \<open>
  What \<^verbatim>\<open>process_frame\<close> returns: \<^verbatim>\<open>None\<close>, a non-null value that is false (such as
  \<^verbatim>\<open>()\<close>), or a triple of an optional processed expansion, an optional raw expansion
  and an optional error list. The call may instead raise an \<^verbatim>\<open>Exception\<close>.
\<close>

datatype frame_result =
    RNone
  | RFalsy
  | RTuple "pyval list option" "pyval list option" "pyval list option"

datatype call_result = Raises | Returns frame_result

text \<open>
  A processor is an object with state. All processors of a run act on one world
  \<open>'w\<close>, which every call may read and change. What a processor writes to the
  payload or to a frame it was given is outside the model: no statement below says
  what the payload holds after a hook or a \<^verbatim>\<open>process_frame\<close> call has written to it.
  The hooks \<^verbatim>\<open>preprocess_related_data\<close> and \<^verbatim>\<open>close\<close> return normally; \<^verbatim>\<open>process_frame\<close> may
  raise.
\<close>

record 'w processor =
  preprocess_related_data :: "'w \<Rightarrow> bool \<times> 'w"
  process_frame :: "pyval \<Rightarrow> stacktrace_info \<Rightarrow> int \<Rightarrow> 'w \<Rightarrow> call_result \<times> 'w"
  close :: "'w \<Rightarrow> 'w"

text \<open>What a run changes outside the payload: the processors' world, the log, the timers.\<close>

record 'w env =
  world :: 'w
  logged :: "string list"
  timers :: "(string \<times> pyval) list"

section \<open>\<^verbatim>\<open>find_stacktraces_in_data\<close>\<close>

text \<open>The body of the loop of \<^verbatim>\<open>_report_stack\<close>, over the frames still to visit.\<close>

fun collect_platforms :: "pyval \<Rightarrow> pyval list \<Rightarrow> pyval list \<Rightarrow> error + pyval list" where
  "collect_platforms data [] plats = Inr plats"
| "collect_platforms data (frame # frames) plats =
     bindE (py_get frame ''platform'') (\<lambda>p.
     bindE (if truthy p then Inr p else py_item data ''platform'') (\<lambda>v.
     if hashable v then collect_platforms data frames (List.insert v plats)
     else Inl TypeError))"

definition report_stack ::
  "pyval \<Rightarrow> pyval \<Rightarrow> pyval \<Rightarrow> ref \<Rightarrow> stacktrace_info list \<Rightarrow> error + stacktrace_info list" where
  "report_stack data st cont r rv =
     bindE (py_get st ''frames'') (\<lambda>fr.
     bindE (if truthy fr then py_iter fr else Inr []) (\<lambda>frames.
     bindE (collect_platforms data frames []) (\<lambda>ps.
     Inr (rv @ [\<lparr>stacktrace = st, container = cont, platforms = ps, ref = r\<rparr>]))))"

text \<open>
  The loops over \<^verbatim>\<open>exc_container['values']\<close> and \<^verbatim>\<open>threads['values']\<close>; \<open>mk\<close> is the
  place of the element at an index and \<open>i\<close> the index of the next element.
\<close>

fun report_values ::
  "pyval \<Rightarrow> (nat \<Rightarrow> ref) \<Rightarrow> nat \<Rightarrow> pyval list \<Rightarrow> stacktrace_info list
     \<Rightarrow> error + stacktrace_info list" where
  "report_values data mk i [] rv = Inr rv"
| "report_values data mk i (x # xs) rv =
     bindE (py_get x ''stacktrace'') (\<lambda>st.
     bindE (if truthy st then report_stack data st x (mk i) rv else Inr rv) (\<lambda>rv'.
     report_values data mk (Suc i) xs rv'))"

definition report_section ::
  "pyval \<Rightarrow> string \<Rightarrow> (nat \<Rightarrow> ref) \<Rightarrow> stacktrace_info list \<Rightarrow> error + stacktrace_info list" where
  "report_section data key mk rv =
     bindE (py_get data key) (\<lambda>c.
     if truthy c then
       bindE (py_item c ''values'') (\<lambda>vs.
       bindE (py_iter vs) (\<lambda>xs. report_values data mk 0 xs rv))
     else Inr rv)"

definition find_stacktraces_in_data :: "pyval \<Rightarrow> error + stacktrace_info list" where
  "find_stacktraces_in_data data =
     bindE (report_section data ''sentry.interfaces.Exception'' InException []) (\<lambda>rv1.
     bindE (py_get data ''sentry.interfaces.Stacktrace'') (\<lambda>st.
     bindE (if truthy st then report_stack data st PNone TopLevel rv1 else Inr rv1) (\<lambda>rv2.
     report_section data ''threads'' InThread rv2)))"

section \<open>\<^verbatim>\<open>process_single_stacktrace\<close>\<close>

record 'w chain_state =
  changed_raw :: bool
  changed_processed :: bool
  raw_frames :: "pyval list"
  processed_frames :: "pyval list"
  all_errors :: "pyval list"
  need_processed_frame :: bool
  need_raw_frame :: bool
  errors :: "pyval list option"
  cenv :: "'w env"

text \<open>\<^verbatim>\<open>rv or (None, None, None)\<close>, unpacked.\<close>

fun unpack :: "frame_result \<Rightarrow> pyval list option \<times> pyval list option \<times> pyval list option" where
  "unpack (RTuple a b c) = (a, b, c)"
| "unpack _ = (None, None, None)"

definition use_result :: "frame_result \<Rightarrow> 'w chain_state \<Rightarrow> 'w chain_state" where
  "use_result rv s =
     (case unpack rv of (expand_processed, expand_raw, errs) \<Rightarrow>
        let s1 = s\<lparr>errors := errs\<rparr>;
            s2 = (case expand_processed of None \<Rightarrow> s1
                  | Some fs \<Rightarrow> s1\<lparr>processed_frames := processed_frames s1 @ fs,
                                  changed_processed := True,
                                  need_processed_frame := False\<rparr>);
            s3 = (case expand_raw of None \<Rightarrow> s2
                  | Some fs \<Rightarrow> s2\<lparr>raw_frames := raw_frames s2 @ fs,
                                  changed_raw := True,
                                  need_raw_frame := False\<rparr>)
        in s3)"

text \<open>
  The inner loop \<^verbatim>\<open>for processor in processors\<close>: \<^verbatim>\<open>continue\<close> is the recursive call,
  \<^verbatim>\<open>break\<close> the return.
\<close>

fun try_processors ::
  "'w processor list \<Rightarrow> pyval \<Rightarrow> stacktrace_info \<Rightarrow> int \<Rightarrow> 'w chain_state \<Rightarrow> 'w chain_state" where
  "try_processors [] frame info ridx s = s"
| "try_processors (p # ps) frame info ridx s =
     (case process_frame p frame info ridx (world (cenv s)) of
        (Raises, w) \<Rightarrow>
          try_processors ps frame info ridx
            (s\<lparr>cenv := (cenv s)\<lparr>world := w,
                 logged := logged (cenv s) @ [''Failed to process frame'']\<rparr>\<rparr>)
      | (Returns RNone, w) \<Rightarrow>
          try_processors ps frame info ridx (s\<lparr>cenv := (cenv s)\<lparr>world := w\<rparr>\<rparr>)
      | (Returns rv, w) \<Rightarrow> use_result rv (s\<lparr>cenv := (cenv s)\<lparr>world := w\<rparr>\<rparr>))"

text \<open>The body of the outer loop, for the frame at index \<open>idx\<close>.\<close>

definition frame_step ::
  "'w processor list \<Rightarrow> stacktrace_info \<Rightarrow> int \<Rightarrow> nat \<Rightarrow> pyval \<Rightarrow> 'w chain_state
     \<Rightarrow> 'w chain_state" where
  "frame_step processors info frame_count idx frame s =
     (let s0 = s\<lparr>need_processed_frame := True, need_raw_frame := True, errors := None\<rparr>;
          s1 = try_processors processors frame info (frame_count - int idx - 1) s0;
          s2 = (if need_processed_frame s1
                then s1\<lparr>processed_frames := processed_frames s1 @ [frame]\<rparr> else s1);
          s3 = (if need_raw_frame s2
                then s2\<lparr>raw_frames := raw_frames s2 @ [frame]\<rparr> else s2)
      in s3\<lparr>all_errors := all_errors s3 @ (case errors s3 of None \<Rightarrow> [] | Some es \<Rightarrow> es)\<rparr>)"

fun process_frames ::
  "'w processor list \<Rightarrow> stacktrace_info \<Rightarrow> int \<Rightarrow> nat \<Rightarrow> pyval list \<Rightarrow> 'w chain_state
     \<Rightarrow> 'w chain_state" where
  "process_frames processors info frame_count idx [] s = s"
| "process_frames processors info frame_count idx (frame # frames) s =
     process_frames processors info frame_count (Suc idx) frames
       (frame_step processors info frame_count idx frame s)"

definition init_state :: "'w env \<Rightarrow> 'w chain_state" where
  "init_state e =
     \<lparr>changed_raw = False, changed_processed = False, raw_frames = [],
      processed_frames = [], all_errors = [], need_processed_frame = True,
      need_raw_frame = True, errors = None, cenv = e\<rparr>"

type_synonym chain_output = "pyval option \<times> pyval option \<times> pyval list"

definition process_single_stacktrace ::
  "stacktrace_info \<Rightarrow> 'w processor list \<Rightarrow> 'w env \<Rightarrow> error + (chain_output \<times> 'w env)" where
  "process_single_stacktrace info processors e =
     bindE (py_item (stacktrace info) ''frames'') (\<lambda>fr.
     bindE (py_len fr) (\<lambda>frame_count.
     bindE (py_iter fr) (\<lambda>frames.
     let s = process_frames processors info frame_count 0 frames (init_state e) in
     Inr ((if changed_processed s
           then Some (dict_set ''frames'' (PList (processed_frames s)) (stacktrace info))
           else None,
           if changed_raw s
           then Some (dict_set ''frames'' (PList (raw_frames s)) (stacktrace info))
           else None,
           all_errors s),
          cenv s))))"

section \<open>\<^verbatim>\<open>get_metrics_key\<close>\<close>

definition get_metrics_key :: "stacktrace_info list \<Rightarrow> string" where
  "get_metrics_key stacktrace_infos =
     (let plats = fold (\<lambda>info acc. fold List.insert (platforms info) acc) stacktrace_infos []
      in case plats of
           [platform] \<Rightarrow>
             if platform = PStr ''javascript'' then ''sourcemaps.process''
             else if platform = PStr ''cocoa'' then ''dsym.process''
             else ''mixed.process''
         | _ \<Rightarrow> ''mixed.process'')"

section \<open>\<^verbatim>\<open>process_stacktraces\<close>\<close>

text \<open>The first loop: every \<^verbatim>\<open>preprocess_related_data\<close> hook is called.\<close>

fun preprocess_all :: "'w processor list \<Rightarrow> bool \<Rightarrow> 'w \<Rightarrow> bool \<times> 'w" where
  "preprocess_all [] changed w = (changed, w)"
| "preprocess_all (p # ps) changed w =
     (case preprocess_related_data p w of
        (b, w') \<Rightarrow> preprocess_all ps (if b then True else changed) w')"

text \<open>
  \<^verbatim>\<open>stacktrace_info.stacktrace.clear()\<close> followed by \<^verbatim>\<open>update(new_stacktrace)\<close> leaves the
  stack-trace object with the contents of the new one; \<open>set_stacktrace\<close> writes them
  where the object lives. \<open>set_raw\<close> is \<^verbatim>\<open>container['raw_stacktrace'] = raw_stacktrace\<close>.
\<close>

definition in_values :: "string \<Rightarrow> nat \<Rightarrow> (pyval \<Rightarrow> pyval) \<Rightarrow> pyval \<Rightarrow> pyval" where
  "in_values key i f data = dict_map key (dict_map ''values'' (list_map i f)) data"

fun set_stacktrace :: "ref \<Rightarrow> pyval \<Rightarrow> pyval \<Rightarrow> pyval" where
  "set_stacktrace (InException i) new data =
     in_values ''sentry.interfaces.Exception'' i (dict_map ''stacktrace'' (\<lambda>_. new)) data"
| "set_stacktrace TopLevel new data =
     dict_map ''sentry.interfaces.Stacktrace'' (\<lambda>_. new) data"
| "set_stacktrace (InThread i) new data =
     in_values ''threads'' i (dict_map ''stacktrace'' (\<lambda>_. new)) data"

fun set_raw :: "ref \<Rightarrow> pyval \<Rightarrow> pyval \<Rightarrow> pyval" where
  "set_raw (InException i) raw data =
     in_values ''sentry.interfaces.Exception'' i (dict_set ''raw_stacktrace'' raw) data"
| "set_raw TopLevel raw data = data"
| "set_raw (InThread i) raw data =
     in_values ''threads'' i (dict_set ''raw_stacktrace'' raw) data"

text \<open>\<^verbatim>\<open>data.setdefault('errors', []).extend(errors)\<close>: only a list has \<^verbatim>\<open>extend\<close>.\<close>

definition extend_errors :: "pyval \<Rightarrow> pyval list \<Rightarrow> error + pyval" where
  "extend_errors data errs =
     (case data of
        PDict d \<Rightarrow>
          (case map_of d ''errors'' of
             None \<Rightarrow> Inr (dict_set ''errors'' (PList ([] @ errs)) data)
           | Some (PList es) \<Rightarrow> Inr (dict_set ''errors'' (PList (es @ errs)) data)
           | Some _ \<Rightarrow> Inl AttributeError)
      | _ \<Rightarrow> Inl AttributeError)"

text \<open>The body of the loop over the stack-trace records, after the chain has run.\<close>

definition merge_result ::
  "stacktrace_info \<Rightarrow> chain_output \<Rightarrow> pyval \<Rightarrow> bool \<Rightarrow> error + (pyval \<times> bool)" where
  "merge_result info out data changed =
     (case out of (new_stacktrace, raw_stacktrace, errs) \<Rightarrow>
        let (data1, changed1) =
              (case new_stacktrace of None \<Rightarrow> (data, changed)
               | Some new \<Rightarrow> (set_stacktrace (ref info) new data, True));
            (data2, changed2) =
              (case raw_stacktrace of None \<Rightarrow> (data1, changed1)
               | Some raw \<Rightarrow>
                   if container info \<noteq> PNone then (set_raw (ref info) raw data1, True)
                   else (data1, changed1))
        in if errs \<noteq> [] then bindE (extend_errors data2 errs) (\<lambda>data3. Inr (data3, True))
           else Inr (data2, changed2))"

fun process_infos ::
  "stacktrace_info list \<Rightarrow> 'w processor list \<Rightarrow> pyval \<Rightarrow> bool \<Rightarrow> 'w env
     \<Rightarrow> error + (pyval \<times> bool \<times> 'w env)" where
  "process_infos [] processors data changed e = Inr (data, changed, e)"
| "process_infos (info # infos) processors data changed e =
     bindE (process_single_stacktrace info processors e) (\<lambda>(out, e').
     bindE (merge_result info out data changed) (\<lambda>(data', changed').
     process_infos infos processors data' changed' e'))"

fun close_all :: "'w processor list \<Rightarrow> 'w \<Rightarrow> 'w" where
  "close_all [] w = w"
| "close_all (p # ps) w = close_all ps (close p w)"

text \<open>
  \<open>make_processors\<close> builds the processors of the run; when the caller passes none, the
  source asks the plugin registry, which is outside the module. The result is
  \<^verbatim>\<open>None\<close> or the payload. The timer of \<^verbatim>\<open>metrics.timer\<close> is recorded with its key and
  the project of the payload.
\<close>

definition process_stacktraces ::
  "pyval \<Rightarrow> (pyval \<Rightarrow> stacktrace_info list \<Rightarrow> 'w processor list) \<Rightarrow> 'w env
     \<Rightarrow> error + (pyval option \<times> 'w env)" where
  "process_stacktraces data make_processors e =
     bindE (find_stacktraces_in_data data) (\<lambda>infos.
     let processors = make_processors data infos in
     if processors = [] then Inr (None, e)
     else
       let mkey = get_metrics_key infos in
       bindE (py_item data ''project'') (\<lambda>project.
       let e1 = e\<lparr>timers := timers e @ [(mkey, project)]\<rparr>;
           (changed, w) = preprocess_all processors False (world e1)
       in bindE (process_infos infos processors data changed (e1\<lparr>world := w\<rparr>))
            (\<lambda>(data', changed', e2).
               let e3 = e2\<lparr>world := close_all processors (world e2)\<rparr>
               in Inr (if changed' then Some data' else None, e3))))"

section \<open>Notions of the specification\<close>

text \<open>
  The chain of responsibility for one frame, as the specification words it: the
  processors are tried in registration order; a \<^verbatim>\<open>None\<close> and a fault (which is logged)
  are no opinion; the first other result is the match. The result is the match, if
  any, and the environment after the calls that were made.
\<close>

fun chain_match ::
  "'w processor list \<Rightarrow> pyval \<Rightarrow> stacktrace_info \<Rightarrow> int \<Rightarrow> 'w env
     \<Rightarrow> frame_result option \<times> 'w env" where
  "chain_match [] frame info ridx e = (None, e)"
| "chain_match (p # ps) frame info ridx e =
     (case process_frame p frame info ridx (world e) of
        (Raises, w) \<Rightarrow>
          chain_match ps frame info ridx
            (e\<lparr>world := w, logged := logged e @ [''Failed to process frame'']\<rparr>)
      | (Returns RNone, w) \<Rightarrow> chain_match ps frame info ridx (e\<lparr>world := w\<rparr>)
      | (Returns rv, w) \<Rightarrow> (Some rv, e\<lparr>world := w\<rparr>))"

text \<open>What a match contributes: the two expansions and the errors.\<close>

definition processed_of :: "frame_result option \<Rightarrow> pyval list option" where
  "processed_of m = (case m of Some (RTuple a b c) \<Rightarrow> a | _ \<Rightarrow> None)"

definition raw_of :: "frame_result option \<Rightarrow> pyval list option" where
  "raw_of m = (case m of Some (RTuple a b c) \<Rightarrow> b | _ \<Rightarrow> None)"

definition errors_field :: "frame_result option \<Rightarrow> pyval list option" where
  "errors_field m = (case m of Some (RTuple a b c) \<Rightarrow> c | _ \<Rightarrow> None)"

definition errors_of :: "frame_result option \<Rightarrow> pyval list" where
  "errors_of m = (case m of Some (RTuple a b (Some es)) \<Rightarrow> es | _ \<Rightarrow> [])"

text \<open>The frames a variant receives for a frame: the expansion, or the frame itself.\<close>

definition contribution :: "pyval list option \<Rightarrow> pyval \<Rightarrow> pyval list" where
  "contribution x frame = (case x of None \<Rightarrow> [frame] | Some fs \<Rightarrow> fs)"

text \<open>
  The matches of the frames of a trace, in order: the frame at index \<open>idx\<close> of a trace
  of \<open>n\<close> frames is offered with the reverse index \<open>n - idx - 1\<close>, in the environment
  the frames before it have left.
\<close>

fun frame_matches ::
  "'w processor list \<Rightarrow> stacktrace_info \<Rightarrow> int \<Rightarrow> nat \<Rightarrow> pyval list \<Rightarrow> 'w env
     \<Rightarrow> frame_result option list" where
  "frame_matches ps info n idx [] e = []"
| "frame_matches ps info n idx (frame # frames) e =
     (case chain_match ps frame info (n - int idx - 1) e of
        (m, e') \<Rightarrow> m # frame_matches ps info n (Suc idx) frames e')"

text \<open>
  A processor whose faults are replaced by \<^verbatim>\<open>None\<close>, and an environment without its log:
  what a run does apart from logging.
\<close>

definition quiet :: "'w processor \<Rightarrow> 'w processor" where
  "quiet p =
     p\<lparr>process_frame := (\<lambda>frame info ridx w.
          case process_frame p frame info ridx w of
            (Raises, w') \<Rightarrow> (Returns RNone, w')
          | (Returns rv, w') \<Rightarrow> (Returns rv, w'))\<rparr>"

definition forget_log :: "'w env \<Rightarrow> 'w env" where
  "forget_log e = e\<lparr>logged := []\<rparr>"

definition forget_state :: "'w chain_state \<Rightarrow> 'w chain_state" where
  "forget_state s = s\<lparr>cenv := forget_log (cenv s)\<rparr>"

text \<open>The result of a fallible function, without the log.\<close>

definition forget_out :: "error + ('a \<times> 'w env) \<Rightarrow> error + ('a \<times> 'w env)" where
  "forget_out r = (case r of Inl err \<Rightarrow> Inl err | Inr (x, e) \<Rightarrow> Inr (x, forget_log e))"

text \<open>
  The locator, as the specification words it. The platform of a frame is its own
  platform or else the platform of the event; the frames of
  a stack trace are its frame list, empty when there is none; the stack traces of a
  payload are those of the exceptions in list order, the top-level one if present,
  and those of the threads in list order, each with its container and its place.
\<close>

definition effective_platform :: "pyval \<Rightarrow> pyval \<Rightarrow> pyval" where
  "effective_platform data frame =
     (case py_get frame ''platform'' of
        Inr p \<Rightarrow> if truthy p then p
                 else (case py_item data ''platform'' of Inr v \<Rightarrow> v | Inl err \<Rightarrow> PNone)
      | Inl err \<Rightarrow> PNone)"

definition frames_of :: "pyval \<Rightarrow> pyval list" where
  "frames_of st =
     (case py_get st ''frames'' of
        Inr fr \<Rightarrow> if truthy fr then (case py_iter fr of Inr fs \<Rightarrow> fs | Inl err \<Rightarrow> []) else []
      | Inl err \<Rightarrow> [])"

definition field_of :: "pyval \<Rightarrow> string \<Rightarrow> pyval" where
  "field_of x key = (case py_get x key of Inr v \<Rightarrow> v | Inl err \<Rightarrow> PNone)"

definition section_values :: "pyval \<Rightarrow> string \<Rightarrow> pyval list" where
  "section_values data key =
     (if truthy (field_of data key)
      then (case py_item (field_of data key) ''values'' of
              Inr vs \<Rightarrow> (case py_iter vs of Inr xs \<Rightarrow> xs | Inl err \<Rightarrow> [])
            | Inl err \<Rightarrow> [])
      else [])"

fun located :: "(nat \<Rightarrow> ref) \<Rightarrow> nat \<Rightarrow> pyval list \<Rightarrow> (ref \<times> pyval \<times> pyval) list" where
  "located mk i [] = []"
| "located mk i (x # xs) =
     (if truthy (field_of x ''stacktrace'') then [(mk i, x, field_of x ''stacktrace'')] else [])
     @ located mk (Suc i) xs"

definition expected_records :: "pyval \<Rightarrow> (ref \<times> pyval \<times> pyval) list" where
  "expected_records data =
     located InException 0 (section_values data ''sentry.interfaces.Exception'')
     @ (if truthy (field_of data ''sentry.interfaces.Stacktrace'')
        then [(TopLevel, PNone, field_of data ''sentry.interfaces.Stacktrace'')] else [])
     @ located InThread 0 (section_values data ''threads'')"

definition record_of :: "stacktrace_info \<Rightarrow> ref \<times> pyval \<times> pyval" where
  "record_of info = (ref info, container info, stacktrace info)"

definition platforms_ok :: "pyval \<Rightarrow> stacktrace_info \<Rightarrow> bool" where
  "platforms_ok data info =
     (set (platforms info) = effective_platform data ` set (frames_of (stacktrace info))
      \<and> distinct (platforms info))"

text \<open>
  What marks a run as changed: the reports of the \<^verbatim>\<open>preprocess_related_data\<close> hooks, in
  the order of the calls, and the outputs of the frame chain for the stack traces,
  in the order of the records, up to the first that fails. An output marks the run
  when it replaces the frames, when it attaches a raw stack trace to a container,
  or when it brings errors.
\<close>

fun hook_reports :: "'w processor list \<Rightarrow> 'w \<Rightarrow> bool list" where
  "hook_reports [] w = []"
| "hook_reports (p # ps) w =
     (case preprocess_related_data p w of (b, w') \<Rightarrow> b # hook_reports ps w')"

fun chain_outputs ::
  "stacktrace_info list \<Rightarrow> 'w processor list \<Rightarrow> 'w env
     \<Rightarrow> (stacktrace_info \<times> chain_output) list" where
  "chain_outputs [] ps e = []"
| "chain_outputs (info # infos) ps e =
     (case process_single_stacktrace info ps e of
        Inl err \<Rightarrow> []
      | Inr (out, e') \<Rightarrow> (info, out) # chain_outputs infos ps e')"

definition marks_dirty :: "stacktrace_info \<times> chain_output \<Rightarrow> bool" where
  "marks_dirty x =
     (case x of (info, new_stacktrace, raw_stacktrace, errs) \<Rightarrow>
        new_stacktrace \<noteq> None
        \<or> (raw_stacktrace \<noteq> None \<and> container info \<noteq> PNone)
        \<or> errs \<noteq> [])"

definition run_dirty ::
  "'w processor list \<Rightarrow> stacktrace_info list \<Rightarrow> 'w env \<Rightarrow> string \<Rightarrow> pyval \<Rightarrow> bool" where
  "run_dirty ps infos e mkey project =
     (True \<in> set (hook_reports ps (world e))
      \<or> (\<exists>x \<in> set (chain_outputs infos ps
                 (e\<lparr>timers := timers e @ [(mkey, project)],
                    world := snd (preprocess_all ps False (world e))\<rparr>)).
            marks_dirty x))"

text \<open>The error list of an event; an event without the entry has no errors yet.\<close>

definition error_list :: "pyval \<Rightarrow> pyval list option" where
  "error_list data =
     (case data of
        PDict d \<Rightarrow>
          (case map_of d ''errors'' of
             None \<Rightarrow> Some []
           | Some (PList es) \<Rightarrow> Some es
           | Some other \<Rightarrow> None)
      | other \<Rightarrow> None)"

text \<open>The matches among the results of the chain for the frames of a trace.\<close>

definition matching :: "frame_result option list \<Rightarrow> frame_result list" where
  "matching ms = concat (map (\<lambda>m. case m of None \<Rightarrow> [] | Some rv \<Rightarrow> [rv]) ms)"

text \<open>
  The payloads the locator accepts. A section may be absent, null or empty: the
  exception container, the top-level stack trace, the thread list, the stack trace
  of an exception or of a thread, the frame list of a stack trace. A section that
  is present has the shape the locator reads: a container has its list of values,
  the holders of stack traces and the frames are dictionaries, and the platform of
  every frame, its own or that of the event, can be a member of a set.
\<close>

definition wf_frame :: "pyval \<Rightarrow> pyval \<Rightarrow> bool" where
  "wf_frame data frame =
     (case py_get frame ''platform'' of
        Inl err \<Rightarrow> False
      | Inr p \<Rightarrow>
          if truthy p then hashable p
          else (case py_item data ''platform'' of Inl err \<Rightarrow> False | Inr v \<Rightarrow> hashable v))"

definition wf_trace :: "pyval \<Rightarrow> pyval \<Rightarrow> bool" where
  "wf_trace data st =
     (case py_get st ''frames'' of
        Inl err \<Rightarrow> False
      | Inr fr \<Rightarrow>
          if truthy fr
          then (case py_iter fr of Inl err \<Rightarrow> False | Inr fs \<Rightarrow> list_all (wf_frame data) fs)
          else True)"

definition wf_optional_trace :: "pyval \<Rightarrow> pyval \<Rightarrow> string \<Rightarrow> bool" where
  "wf_optional_trace data x key =
     (case py_get x key of
        Inl err \<Rightarrow> False
      | Inr st \<Rightarrow> if truthy st then wf_trace data st else True)"

definition wf_section :: "pyval \<Rightarrow> string \<Rightarrow> bool" where
  "wf_section data key =
     (case py_get data key of
        Inl err \<Rightarrow> False
      | Inr c \<Rightarrow>
          if truthy c
          then (case py_item c ''values'' of
                  Inl err \<Rightarrow> False
                | Inr vs \<Rightarrow>
                    (case py_iter vs of
                       Inl err \<Rightarrow> False
                     | Inr xs \<Rightarrow> list_all (\<lambda>x. wf_optional_trace data x ''stacktrace'') xs))
          else True)"

definition wf_payload :: "pyval \<Rightarrow> bool" where
  "wf_payload data =
     (wf_section data ''sentry.interfaces.Exception''
      \<and> wf_optional_trace data data ''sentry.interfaces.Stacktrace''
      \<and> wf_section data ''threads'')"

text \<open>A fallible function succeeds when it returns a value.\<close>

definition succeeds :: "error + 'a \<Rightarrow> bool" where
  "succeeds r = (case r of Inl err \<Rightarrow> False | Inr x \<Rightarrow> True)"

section \<open>Example inputs\<close>

text \<open>
  Example processors keep a log of their \<^verbatim>\<open>process_frame\<close> calls as their world: the
  name of the processor and the reverse index it was given.
\<close>

type_synonym call_log = "(string \<times> int) list"

definition mk_processor ::
  "string \<Rightarrow> (pyval \<Rightarrow> int \<Rightarrow> call_result) \<Rightarrow> bool \<Rightarrow> call_log processor" where
  "mk_processor name f b =
     \<lparr>preprocess_related_data = (\<lambda>w. (b, w)),
      process_frame = (\<lambda>frame info ridx w. (f frame ridx, w @ [(name, ridx)])),
      close = (\<lambda>w. w)\<rparr>"

definition silent :: "call_log processor" where
  "silent = mk_processor ''silent'' (\<lambda>frame ridx. Returns RNone) False"

definition faulty :: "call_log processor" where
  "faulty = mk_processor ''faulty'' (\<lambda>frame ridx. Raises) False"

definition doubler :: "call_log processor" where
  "doubler = mk_processor ''doubler''
     (\<lambda>frame ridx. Returns (RTuple (Some [frame, frame]) None None)) False"

definition raw_only :: "call_log processor" where
  "raw_only = mk_processor ''raw_only''
     (\<lambda>frame ridx. Returns (if ridx = 0 then RTuple None (Some [frame]) None else RNone)) False"

definition falsy :: "call_log processor" where
  "falsy = mk_processor ''falsy'' (\<lambda>frame ridx. Returns RFalsy) False"

definition error_x :: pyval where
  "error_x = PDict [(''error'', PStr ''x'')]"

definition reporter :: "call_log processor" where
  "reporter = mk_processor ''reporter''
     (\<lambda>frame ridx. Returns (if ridx = 0 then RTuple None None (Some [error_x]) else RNone))
     False"

definition frame_a :: pyval where "frame_a = PDict [(''function'', PStr ''a'')]"
definition frame_b :: pyval where "frame_b = PDict [(''function'', PStr ''b'')]"
definition frame_c :: pyval where "frame_c = PDict [(''function'', PStr ''c'')]"

definition trace3 :: pyval where
  "trace3 = PDict [(''frames'', PList [frame_a, frame_b, frame_c])]"

definition exc3 :: pyval where
  "exc3 = PDict [(''type'', PStr ''E''), (''stacktrace'', trace3)]"

definition event3 :: pyval where
  "event3 = PDict [(''project'', PInt 1), (''platform'', PStr ''cocoa''),
     (''sentry.interfaces.Exception'', PDict [(''values'', PList [exc3])])]"

definition info3 :: stacktrace_info where
  "info3 = \<lparr>stacktrace = trace3, container = exc3, platforms = [PStr ''cocoa''],
            ref = InException 0\<rparr>"

definition env0 :: "call_log env" where
  "env0 = \<lparr>world = [], logged = [], timers = []\<rparr>"

definition frame_js :: pyval where
  "frame_js = PDict [(''function'', PStr ''j''), (''platform'', PStr ''javascript'')]"

definition trace_mixed :: pyval where
  "trace_mixed = PDict [(''frames'', PList [frame_a, frame_js])]"

definition trace_empty :: pyval where
  "trace_empty = PDict [(''frames'', PList [])]"

definition event_mixed :: pyval where
  "event_mixed = PDict [(''project'', PInt 1), (''platform'', PStr ''cocoa''),
     (''sentry.interfaces.Exception'', PDict [(''values'', PList
        [PDict [(''stacktrace'', trace_mixed)],
         PDict [(''type'', PStr ''E'')],
         PDict [(''stacktrace'', trace_empty)]])]),
     (''sentry.interfaces.Stacktrace'', trace3),
     (''threads'', PDict [(''values'', PList
        [PDict [(''id'', PInt 1)],
         PDict [(''id'', PInt 2), (''stacktrace'', trace3)]])])]"

definition mixed_infos :: "stacktrace_info list" where
  "mixed_infos =
     [\<lparr>stacktrace = trace_mixed, container = PDict [(''stacktrace'', trace_mixed)],
       platforms = [PStr ''javascript'', PStr ''cocoa''], ref = InException 0\<rparr>,
      \<lparr>stacktrace = trace_empty, container = PDict [(''stacktrace'', trace_empty)],
       platforms = [], ref = InException 2\<rparr>,
      \<lparr>stacktrace = trace3, container = PNone,
       platforms = [PStr ''cocoa''], ref = TopLevel\<rparr>,
      \<lparr>stacktrace = trace3, container = PDict [(''id'', PInt 2), (''stacktrace'', trace3)],
       platforms = [PStr ''cocoa''], ref = InThread 1\<rparr>]"

text \<open>Ways to build the processors of a run, and payloads for the orchestrator.\<close>

definition no_processors :: "pyval \<Rightarrow> stacktrace_info list \<Rightarrow> call_log processor list" where
  "no_processors data infos = []"

definition only ::
  "call_log processor \<Rightarrow> pyval \<Rightarrow> stacktrace_info list \<Rightarrow> call_log processor list" where
  "only p data infos = [p]"


definition event_plain :: pyval where
  "event_plain = PDict [(''project'', PInt 1), (''platform'', PStr ''cocoa'')]"

definition trace_noframes :: pyval where
  "trace_noframes = PDict [(''registers'', PDict [])]"

definition event_noframes :: pyval where
  "event_noframes = PDict [(''project'', PInt 1), (''platform'', PStr ''cocoa''),
     (''sentry.interfaces.Exception'',
        PDict [(''values'', PList [PDict [(''stacktrace'', trace_noframes)]])])]"

definition event_novalues :: pyval where
  "event_novalues = PDict [(''project'', PInt 1), (''platform'', PStr ''cocoa''),
     (''sentry.interfaces.Exception'', PDict [(''exc_omitted'', PNone)])]"

section \<open>The frame chain\<close>

lemma try_processors_chain_match:
  "try_processors ps frame info ridx s =
     (case chain_match ps frame info ridx (cenv s) of
        (None, e') \<Rightarrow> s\<lparr>cenv := e'\<rparr>
      | (Some rv, e') \<Rightarrow> use_result rv (s\<lparr>cenv := e'\<rparr>))"
proof (induction ps arbitrary: s)
  case Nil
  show ?case by simp
next
  case (Cons p ps)
  show ?case
    by (auto simp: Cons.IH split: prod.split call_result.split frame_result.split option.split)
qed

lemma chain_match_append_None:
  "chain_match pre frame info ridx e = (None, e') \<Longrightarrow>
   chain_match (pre @ ps) frame info ridx e = chain_match ps frame info ridx e'"
proof (induction pre arbitrary: e)
  case Nil
  then show ?case by simp
next
  case (Cons p pre)
  then show ?case
    by (auto split: prod.splits call_result.splits frame_result.splits)
qed

lemma chain_match_hit:
  "process_frame p frame info ridx (world e) = (Returns rv, w) \<Longrightarrow> rv \<noteq> RNone \<Longrightarrow>
   chain_match (p # post) frame info ridx e = (Some rv, e\<lparr>world := w\<rparr>)"
  by (cases rv) simp_all

lemma length_frame_matches [simp]:
  "length (frame_matches ps info n idx frames e) = length frames"
  by (induction frames arbitrary: idx e) (auto split: prod.splits)

lemma use_result_fields:
  "processed_frames (use_result rv s) =
     processed_frames s @ (case processed_of (Some rv) of None \<Rightarrow> [] | Some fs \<Rightarrow> fs)"
  "raw_frames (use_result rv s) =
     raw_frames s @ (case raw_of (Some rv) of None \<Rightarrow> [] | Some fs \<Rightarrow> fs)"
  "need_processed_frame (use_result rv s) =
     (need_processed_frame s \<and> processed_of (Some rv) = None)"
  "need_raw_frame (use_result rv s) = (need_raw_frame s \<and> raw_of (Some rv) = None)"
  "changed_processed (use_result rv s) =
     (changed_processed s \<or> processed_of (Some rv) \<noteq> None)"
  "changed_raw (use_result rv s) = (changed_raw s \<or> raw_of (Some rv) \<noteq> None)"
  "errors (use_result rv s) = errors_field (Some rv)"
  "all_errors (use_result rv s) = all_errors s"
  "cenv (use_result rv s) = cenv s"
proof -
  show "processed_frames (use_result rv s) =
     processed_frames s @ (case processed_of (Some rv) of None \<Rightarrow> [] | Some fs \<Rightarrow> fs)"
    by (cases rv; cases "processed_of (Some rv)"; cases "raw_of (Some rv)")
       (simp_all add: use_result_def processed_of_def raw_of_def)
  show "raw_frames (use_result rv s) =
     raw_frames s @ (case raw_of (Some rv) of None \<Rightarrow> [] | Some fs \<Rightarrow> fs)"
    by (cases rv; cases "processed_of (Some rv)"; cases "raw_of (Some rv)")
       (simp_all add: use_result_def processed_of_def raw_of_def)
  show "need_processed_frame (use_result rv s) =
     (need_processed_frame s \<and> processed_of (Some rv) = None)"
    by (cases rv; cases "processed_of (Some rv)"; cases "raw_of (Some rv)")
       (simp_all add: use_result_def processed_of_def raw_of_def)
  show "need_raw_frame (use_result rv s) = (need_raw_frame s \<and> raw_of (Some rv) = None)"
    by (cases rv; cases "processed_of (Some rv)"; cases "raw_of (Some rv)")
       (simp_all add: use_result_def processed_of_def raw_of_def)
  show "changed_processed (use_result rv s) =
     (changed_processed s \<or> processed_of (Some rv) \<noteq> None)"
    by (cases rv; cases "processed_of (Some rv)"; cases "raw_of (Some rv)")
       (simp_all add: use_result_def processed_of_def raw_of_def)
  show "changed_raw (use_result rv s) = (changed_raw s \<or> raw_of (Some rv) \<noteq> None)"
    by (cases rv; cases "processed_of (Some rv)"; cases "raw_of (Some rv)")
       (simp_all add: use_result_def processed_of_def raw_of_def)
  show "errors (use_result rv s) = errors_field (Some rv)"
    by (cases rv; cases "processed_of (Some rv)"; cases "raw_of (Some rv)")
       (simp_all add: use_result_def processed_of_def raw_of_def errors_field_def)
  show "all_errors (use_result rv s) = all_errors s"
    by (cases rv; cases "processed_of (Some rv)"; cases "raw_of (Some rv)")
       (simp_all add: use_result_def processed_of_def raw_of_def)
  show "cenv (use_result rv s) = cenv s"
    by (cases rv; cases "processed_of (Some rv)"; cases "raw_of (Some rv)")
       (simp_all add: use_result_def processed_of_def raw_of_def)
qed

lemma errors_of_field:
  "errors_of m = (case errors_field m of None \<Rightarrow> [] | Some es \<Rightarrow> es)"
  by (simp add: errors_of_def errors_field_def split: option.splits frame_result.splits)

lemma frame_step_match:
  assumes "chain_match ps frame info (n - int idx - 1) (cenv s) = (m, e')"
  shows "processed_frames (frame_step ps info n idx frame s) =
           processed_frames s @ contribution (processed_of m) frame
       \<and> raw_frames (frame_step ps info n idx frame s) =
           raw_frames s @ contribution (raw_of m) frame
       \<and> all_errors (frame_step ps info n idx frame s) = all_errors s @ errors_of m
       \<and> changed_processed (frame_step ps info n idx frame s) =
           (changed_processed s \<or> processed_of m \<noteq> None)
       \<and> changed_raw (frame_step ps info n idx frame s) =
           (changed_raw s \<or> raw_of m \<noteq> None)
       \<and> cenv (frame_step ps info n idx frame s) = e'"
proof (cases m)
  case None
  with assms show ?thesis
    by (simp add: frame_step_def try_processors_chain_match Let_def
        processed_of_def raw_of_def errors_of_def contribution_def)
next
  case (Some rv)
  with assms show ?thesis
    by (simp add: frame_step_def try_processors_chain_match Let_def
        use_result_fields contribution_def errors_of_field split: option.splits)
qed

lemma process_frames_match:
  "processed_frames (process_frames ps info n idx frames s) =
     processed_frames s @
       concat (map2 (\<lambda>f m. contribution (processed_of m) f) frames
                 (frame_matches ps info n idx frames (cenv s)))
   \<and> raw_frames (process_frames ps info n idx frames s) =
     raw_frames s @
       concat (map2 (\<lambda>f m. contribution (raw_of m) f) frames
                 (frame_matches ps info n idx frames (cenv s)))
   \<and> all_errors (process_frames ps info n idx frames s) =
     all_errors s @ concat (map errors_of (frame_matches ps info n idx frames (cenv s)))
   \<and> changed_processed (process_frames ps info n idx frames s) =
     (changed_processed s \<or>
      (\<exists>m \<in> set (frame_matches ps info n idx frames (cenv s)). processed_of m \<noteq> None))
   \<and> changed_raw (process_frames ps info n idx frames s) =
     (changed_raw s \<or>
      (\<exists>m \<in> set (frame_matches ps info n idx frames (cenv s)). raw_of m \<noteq> None))"
proof (induction frames arbitrary: idx s)
  case Nil
  show ?case by simp
next
  case (Cons f frames)
  obtain m e' where cm: "chain_match ps f info (n - int idx - 1) (cenv s) = (m, e')"
    by (cases "chain_match ps f info (n - int idx - 1) (cenv s)")
  note st = frame_step_match [OF cm]
  show ?case
    using Cons.IH [of "Suc idx" "frame_step ps info n idx f s"]
    by (simp add: cm st)
qed

lemma concat_singletons:
  "length ms = length frames \<Longrightarrow> \<forall>m \<in> set ms. g m = None \<Longrightarrow>
   concat (map2 (\<lambda>f m. contribution (g m) f) frames ms) = frames"
proof (induction frames arbitrary: ms)
  case Nil
  then show ?case by simp
next
  case (Cons f frames)
  then obtain m ms' where "ms = m # ms'" by (cases ms) auto
  with Cons show ?case by (simp add: contribution_def)
qed

lemma process_single_stacktrace_frames:
  assumes "py_item (stacktrace info) ''frames'' = Inr fr"
    and "py_len fr = Inr n" and "py_iter fr = Inr frames"
  shows "process_single_stacktrace info ps e =
     (let s = process_frames ps info n 0 frames (init_state e) in
     Inr ((if changed_processed s
           then Some (dict_set ''frames'' (PList (processed_frames s)) (stacktrace info))
           else None,
           if changed_raw s
           then Some (dict_set ''frames'' (PList (raw_frames s)) (stacktrace info))
           else None,
           all_errors s),
          cenv s))"
  using assms by (simp add: process_single_stacktrace_def bindE_def)

section \<open>Faults change the log only\<close>

lemma forget_use_result:
  "forget_state (use_result rv s) = use_result rv (forget_state s)"
  by (cases rv; cases "processed_of (Some rv)"; cases "raw_of (Some rv)")
     (simp_all add: use_result_def forget_state_def processed_of_def raw_of_def)

lemma forget_try_processors:
  "forget_state (try_processors ps frame info ridx s) =
     try_processors (map quiet ps) frame info ridx (forget_state s)"
proof (induction ps arbitrary: s)
  case Nil
  show ?case by simp
next
  case (Cons p ps)
  obtain r w where pf: "process_frame p frame info ridx (world (cenv s)) = (r, w)"
    by (cases "process_frame p frame info ridx (world (cenv s))")
  have w: "world (cenv (forget_state s)) = world (cenv s)"
    by (simp add: forget_state_def forget_log_def)
  show ?case
  proof (cases r)
    case Raises
    have "forget_state (s\<lparr>cenv := (cenv s)\<lparr>world := w,
                 logged := logged (cenv s) @ [''Failed to process frame'']\<rparr>\<rparr>) =
          (forget_state s)\<lparr>cenv := (cenv (forget_state s))\<lparr>world := w\<rparr>\<rparr>"
      by (simp add: forget_state_def forget_log_def)
    with Raises pf w show ?thesis
      by (simp add: Cons.IH quiet_def)
  next
    case (Returns rv)
    have eq: "forget_state (s\<lparr>cenv := (cenv s)\<lparr>world := w\<rparr>\<rparr>) =
          (forget_state s)\<lparr>cenv := (cenv (forget_state s))\<lparr>world := w\<rparr>\<rparr>"
      by (simp add: forget_state_def forget_log_def)
    show ?thesis
    proof (cases "rv = RNone")
      case True
      with Returns pf w eq show ?thesis
        by (simp add: Cons.IH quiet_def)
    next
      case False
      with Returns pf w eq show ?thesis
        by (cases rv) (simp_all add: quiet_def forget_use_result)
    qed
  qed
qed

lemma forget_frame_step:
  "forget_state (frame_step ps info n idx frame s) =
     frame_step (map quiet ps) info n idx frame (forget_state s)"
proof -
  have a: "forget_state (s\<lparr>need_processed_frame := True, need_raw_frame := True,
              errors := None\<rparr>) =
        (forget_state s)\<lparr>need_processed_frame := True, need_raw_frame := True,
              errors := None\<rparr>"
    by (simp add: forget_state_def)
  have b: "\<And>t. need_processed_frame (forget_state t) = need_processed_frame t"
    "\<And>t. need_raw_frame (forget_state t) = need_raw_frame t"
    "\<And>t. errors (forget_state t) = errors t"
    "\<And>t. processed_frames (forget_state t) = processed_frames t"
    "\<And>t. raw_frames (forget_state t) = raw_frames t"
    "\<And>t. all_errors (forget_state t) = all_errors t"
    by (simp_all add: forget_state_def)
  have c: "\<And>t x. forget_state (t\<lparr>processed_frames := x\<rparr>) = (forget_state t)\<lparr>processed_frames := x\<rparr>"
    "\<And>t x. forget_state (t\<lparr>raw_frames := x\<rparr>) = (forget_state t)\<lparr>raw_frames := x\<rparr>"
    "\<And>t x. forget_state (t\<lparr>all_errors := x\<rparr>) = (forget_state t)\<lparr>all_errors := x\<rparr>"
    by (simp_all add: forget_state_def)
  show ?thesis
    unfolding frame_step_def Let_def
    by (simp add: a [symmetric] forget_try_processors [symmetric] b c)
qed

lemma forget_process_frames:
  "forget_state (process_frames ps info n idx frames s) =
     process_frames (map quiet ps) info n idx frames (forget_state s)"
  by (induction frames arbitrary: idx s) (simp_all add: forget_frame_step)

lemma forget_init_state: "forget_state (init_state e) = init_state (forget_log e)"
  by (simp add: forget_state_def init_state_def)

lemma forget_fields:
  "changed_processed (forget_state t) = changed_processed t"
  "changed_raw (forget_state t) = changed_raw t"
  "processed_frames (forget_state t) = processed_frames t"
  "raw_frames (forget_state t) = raw_frames t"
  "all_errors (forget_state t) = all_errors t"
  "cenv (forget_state t) = forget_log (cenv t)"
  by (simp_all add: forget_state_def)

lemma forget_process_single_stacktrace:
  "forget_out (process_single_stacktrace info ps e) =
     process_single_stacktrace info (map quiet ps) (forget_log e)"
proof (cases "py_item (stacktrace info) ''frames''")
  case (Inl err)
  then show ?thesis
    by (simp add: process_single_stacktrace_def bindE_def forget_out_def)
next
  case fr: (Inr fr)
  show ?thesis
  proof (cases "py_len fr")
    case (Inl err)
    with fr show ?thesis
      by (simp add: process_single_stacktrace_def bindE_def forget_out_def)
  next
    case n: (Inr n)
    show ?thesis
    proof (cases "py_iter fr")
      case (Inl err)
      with fr n show ?thesis
        by (simp add: process_single_stacktrace_def bindE_def forget_out_def)
    next
      case (Inr frames)
      note pf = forget_process_frames [of ps info n 0 frames "init_state e", symmetric]
      from fr n Inr show ?thesis
        by (simp add: process_single_stacktrace_def bindE_def forget_out_def Let_def
            forget_init_state [symmetric] pf forget_fields)
    qed
  qed
qed

lemma forget_process_infos:
  "(case process_infos infos ps data changed e of
      Inl err \<Rightarrow> Inl err
    | Inr (d, c, e') \<Rightarrow> Inr (d, c, forget_log e')) =
   process_infos infos (map quiet ps) data changed (forget_log e)"
proof (induction infos arbitrary: data changed e)
  case Nil
  show ?case by simp
next
  case (Cons info infos)
  note one = forget_process_single_stacktrace [of info ps e, symmetric]
  show ?case
  proof (cases "process_single_stacktrace info ps e")
    case (Inl err)
    with one show ?thesis by (simp add: bindE_def forget_out_def)
  next
    case (Inr r)
    obtain out e' where r: "r = (out, e')" by (cases r)
    show ?thesis
    proof (cases "merge_result info out data changed")
      case (Inl err)
      with Inr r one show ?thesis by (simp add: bindE_def forget_out_def)
    next
      case m: (Inr dc)
      obtain d c where "dc = (d, c)" by (cases dc)
      with m Inr r one Cons.IH [of d c e'] show ?thesis
        by (simp add: bindE_def forget_out_def)
    qed
  qed
qed

lemma preprocess_all_quiet:
  "preprocess_all (map quiet ps) changed w = preprocess_all ps changed w"
  by (induction ps arbitrary: changed w) (simp_all add: quiet_def split: prod.splits)

lemma close_all_quiet: "close_all (map quiet ps) w = close_all ps w"
  by (induction ps arbitrary: w) (simp_all add: quiet_def)

lemma forget_process_stacktraces:
  "forget_out (process_stacktraces data mk e) =
     process_stacktraces data (\<lambda>d infos. map quiet (mk d infos)) (forget_log e)"
proof (cases "find_stacktraces_in_data data")
  case (Inl err)
  then show ?thesis by (simp add: process_stacktraces_def bindE_def forget_out_def)
next
  case (Inr infos)
  show ?thesis
  proof (cases "mk data infos = []")
    case True
    with Inr show ?thesis by (simp add: process_stacktraces_def bindE_def forget_out_def)
  next
    case ne: False
    show ?thesis
    proof (cases "py_item data ''project''")
      case (Inl err)
      with Inr ne show ?thesis
        by (simp add: process_stacktraces_def bindE_def forget_out_def Let_def)
    next
      case pr: (Inr project)
      obtain c w where pa: "preprocess_all (mk data infos) False (world e) = (c, w)"
        by (cases "preprocess_all (mk data infos) False (world e)")
      let ?e1 = "e\<lparr>timers := timers e @ [(get_metrics_key infos, project)], world := w\<rparr>"
      have fl: "forget_log ?e1 =
         (forget_log e)\<lparr>timers := timers (forget_log e) @ [(get_metrics_key infos, project)],
            world := w\<rparr>"
        by (simp add: forget_log_def)
      note pi = forget_process_infos [of infos "mk data infos" data c ?e1, symmetric]
      have cl: "\<And>e2. forget_log (e2\<lparr>world := close_all (mk data infos) (world e2)\<rparr>) =
          (forget_log e2)\<lparr>world := close_all (mk data infos) (world (forget_log e2))\<rparr>"
        by (simp add: forget_log_def)
      have w0: "world (forget_log e) = world e" by (simp add: forget_log_def)
      show ?thesis
      proof (cases "process_infos infos (mk data infos) data c ?e1")
        case (Inl err)
        with Inr ne pr pa pi fl w0 show ?thesis
          by (simp add: process_stacktraces_def bindE_def forget_out_def Let_def
              preprocess_all_quiet close_all_quiet)
      next
        case r: (Inr r)
        obtain d c' e2 where "r = (d, c', e2)" by (cases r)
        with r Inr ne pr pa pi fl w0 cl [of e2] show ?thesis
          by (simp add: process_stacktraces_def bindE_def forget_out_def Let_def
              preprocess_all_quiet close_all_quiet)
      qed
    qed
  qed
qed

section \<open>The locator\<close>

lemma bindE_Inr: "(bindE m f = Inr y) = (\<exists>x. m = Inr x \<and> f x = Inr y)"
  by (cases m) (simp_all add: bindE_def)

lemma collect_platforms_ok:
  "collect_platforms data frames acc = Inr ps \<Longrightarrow>
   set ps = set acc \<union> effective_platform data ` set frames
   \<and> (distinct acc \<longrightarrow> distinct ps)"
proof (induction frames arbitrary: acc)
  case Nil
  then show ?case by simp
next
  case (Cons frame frames)
  from Cons.prems obtain p v where
    p: "py_get frame ''platform'' = Inr p"
    and v: "(if truthy p then Inr p else py_item data ''platform'') = Inr v"
    and hr: "(if hashable v then collect_platforms data frames (List.insert v acc)
              else Inl TypeError) = Inr ps"
    by (auto simp: bindE_Inr)
  from hr have r: "collect_platforms data frames (List.insert v acc) = Inr ps"
    by (simp split: if_splits)
  from p v have e: "effective_platform data frame = v"
    by (auto simp: effective_platform_def split: if_splits)
  from Cons.IH [OF r] e show ?case
    by auto
qed

lemma report_stack_ok:
  assumes "report_stack data st cont r rv = Inr rv'"
  shows "\<exists>info. rv' = rv @ [info] \<and> record_of info = (r, cont, st) \<and> platforms_ok data info"
proof -
  from assms obtain fr frames ps where
    fr: "py_get st ''frames'' = Inr fr"
    and it: "(if truthy fr then py_iter fr else Inr []) = Inr frames"
    and cp: "collect_platforms data frames [] = Inr ps"
    and rv': "rv' = rv @ [\<lparr>stacktrace = st, container = cont, platforms = ps, ref = r\<rparr>]"
    by (auto simp: report_stack_def bindE_Inr)
  from fr it have f: "frames_of st = frames"
    by (auto simp: frames_of_def split: if_splits)
  from collect_platforms_ok [OF cp] f rv' show ?thesis
    by (simp add: record_of_def platforms_ok_def)
qed

lemma report_values_ok:
  "report_values data mk i xs rv = Inr rv' \<Longrightarrow>
   \<exists>new. rv' = rv @ new \<and> map record_of new = located mk i xs
     \<and> (\<forall>info \<in> set new. platforms_ok data info)"
proof (induction xs arbitrary: i rv)
  case Nil
  then show ?case by simp
next
  case (Cons x xs)
  from Cons.prems obtain st rv1 where
    st: "py_get x ''stacktrace'' = Inr st"
    and one: "(if truthy st then report_stack data st x (mk i) rv else Inr rv) = Inr rv1"
    and rest: "report_values data mk (Suc i) xs rv1 = Inr rv'"
    by (auto simp: bindE_Inr)
  from st have fo: "field_of x ''stacktrace'' = st" by (simp add: field_of_def)
  from Cons.IH [OF rest] obtain new where
    new: "rv' = rv1 @ new" "map record_of new = located mk (Suc i) xs"
      "\<forall>info \<in> set new. platforms_ok data info"
    by blast
  show ?case
  proof (cases "truthy st")
    case True
    with one report_stack_ok obtain info where
      "rv1 = rv @ [info]" "record_of info = (mk i, x, st)" "platforms_ok data info"
      by fastforce
    with new fo True show ?thesis
      by (intro exI [of _ "info # new"]) simp
  next
    case False
    with one new fo show ?thesis
      by (intro exI [of _ new]) simp
  qed
qed

lemma report_section_ok:
  assumes "report_section data key mk rv = Inr rv'"
  shows "\<exists>new. rv' = rv @ new \<and> map record_of new = located mk 0 (section_values data key)
     \<and> (\<forall>info \<in> set new. platforms_ok data info)"
proof -
  from assms obtain c where c: "py_get data key = Inr c"
    and r: "(if truthy c then
       bindE (py_item c ''values'') (\<lambda>vs.
       bindE (py_iter vs) (\<lambda>xs. report_values data mk 0 xs rv))
     else Inr rv) = Inr rv'"
    by (auto simp: report_section_def bindE_Inr)
  from c have fo: "field_of data key = c" by (simp add: field_of_def)
  show ?thesis
  proof (cases "truthy c")
    case True
    with r obtain vs xs where "py_item c ''values'' = Inr vs" "py_iter vs = Inr xs"
      "report_values data mk 0 xs rv = Inr rv'"
      by (auto simp: bindE_Inr)
    with True fo report_values_ok [of data mk 0 xs rv rv'] show ?thesis
      by (simp add: section_values_def)
  next
    case False
    with r fo show ?thesis
      by (intro exI [of _ "[]"]) (simp add: section_values_def)
  qed
qed

section \<open>The changed flag of a run\<close>

lemma preprocess_all_reports:
  "fst (preprocess_all ps changed w) = (changed \<or> True \<in> set (hook_reports ps w))"
  by (induction ps arbitrary: changed w) (auto split: prod.splits)

lemma merge_result_changed:
  assumes "merge_result info out data changed = Inr (data', changed')"
  shows "changed' = (changed \<or> marks_dirty (info, out))"
proof -
  obtain new raw errs where out: "out = (new, raw, errs)" by (cases out)
  show ?thesis
    using assms unfolding out
    by (cases new; cases raw; cases "errs = []"; cases "container info = PNone")
       (auto simp: merge_result_def marks_dirty_def bindE_Inr)
qed

lemma process_infos_changed:
  "process_infos infos ps data changed e = Inr (data', changed', e') \<Longrightarrow>
   changed' = (changed \<or> (\<exists>x \<in> set (chain_outputs infos ps e). marks_dirty x))"
proof (induction infos arbitrary: data changed e)
  case Nil
  then show ?case by simp
next
  case (Cons info infos)
  from Cons.prems obtain out e1 d1 c1 where
    one: "process_single_stacktrace info ps e = Inr (out, e1)"
    and m: "merge_result info out data changed = Inr (d1, c1)"
    and rest: "process_infos infos ps d1 c1 e1 = Inr (data', changed', e')"
    by (auto simp: bindE_Inr)
  from Cons.IH [OF rest] merge_result_changed [OF m] one show ?case
    by auto
qed

lemma find_event3: "find_stacktraces_in_data event3 = Inr [info3]"
  by (simp add: find_stacktraces_in_data_def report_section_def report_stack_def
      bindE_def event3_def exc3_def info3_def trace3_def frame_a_def frame_b_def
      frame_c_def)

lemma project_event3: "py_item event3 ''project'' = Inr (PInt 1)"
  by (simp add: event3_def)

lemma metrics_key_info3: "get_metrics_key [info3] = ''dsym.process''"
  by (simp add: get_metrics_key_def info3_def)

section \<open>Errors brought by a match\<close>

lemma extend_errors_list:
  assumes "error_list data = Some old"
  shows "extend_errors data errs = Inr (dict_set ''errors'' (PList (old @ errs)) data)"
    and "error_list (dict_set ''errors'' (PList (old @ errs)) data) = Some (old @ errs)"
proof -
  from assms obtain d where d: "data = PDict d"
    by (cases data) (simp_all add: error_list_def)
  show "extend_errors data errs = Inr (dict_set ''errors'' (PList (old @ errs)) data)"
    using assms unfolding d
    by (auto simp: extend_errors_def error_list_def dict_set_def
        split: option.splits pyval.splits)
  show "error_list (dict_set ''errors'' (PList (old @ errs)) data) = Some (old @ errs)"
    unfolding d by (simp add: error_list_def dict_set_def update_conv')
qed

lemma matching_Cons:
  "matching (m # ms) = (case m of None \<Rightarrow> [] | Some rv \<Rightarrow> [rv]) @ matching ms"
  by (simp add: matching_def)

lemma errors_of_matching:
  "concat (map errors_of ms) = concat (map (\<lambda>rv. errors_of (Some rv)) (matching ms))"
  by (induction ms) (auto simp: matching_Cons matching_def errors_of_def split: option.splits)

lemma processed_of_matching:
  "(\<forall>m \<in> set ms. processed_of m = None) =
   (\<forall>rv \<in> set (matching ms). processed_of (Some rv) = None)"
  by (induction ms) (auto simp: matching_Cons matching_def processed_of_def split: option.splits)

lemma raw_of_matching:
  "(\<forall>m \<in> set ms. raw_of m = None) = (\<forall>rv \<in> set (matching ms). raw_of (Some rv) = None)"
  by (induction ms) (auto simp: matching_Cons matching_def raw_of_def split: option.splits)

lemma single_error_match_output:
  assumes fr: "py_item (stacktrace info) ''frames'' = Inr fr"
    and n: "py_len fr = Inr n" and it: "py_iter fr = Inr frames"
    and m: "matching (frame_matches ps info n 0 frames e) = [RTuple None None (Some [err])]"
  shows "\<exists>e'. process_single_stacktrace info ps e = Inr ((None, None, [err]), e')"
proof -
  let ?ms = "frame_matches ps info n 0 frames e"
  note pm = process_frames_match [of ps info n 0 frames "init_state e"]
  have ce: "cenv (init_state e) = e" by (simp add: init_state_def)
  have p0: "changed_processed (init_state e) = False" "changed_raw (init_state e) = False"
    "all_errors (init_state e) = []"
    by (simp_all add: init_state_def)
  have a: "concat (map errors_of ?ms) = [err]"
    unfolding errors_of_matching m by (simp add: errors_of_def)
  have b: "\<forall>m \<in> set ?ms. processed_of m = None"
    unfolding processed_of_matching m by (simp add: processed_of_def)
  have c: "\<forall>m \<in> set ?ms. raw_of m = None"
    unfolding raw_of_matching m by (simp add: raw_of_def)
  from pm a b c show ?thesis
    by (simp add: process_single_stacktrace_frames [OF fr n it] Let_def ce p0)
qed

section \<open>The payloads the locator accepts\<close>

lemma succeeds_simps [simp]: "succeeds (Inr x)" "\<not> succeeds (Inl err)"
  by (simp_all add: succeeds_def)

lemma ex_Inr_succeeds [simp]: "(\<exists>x. r = Inr x) = succeeds r"
  by (cases r) (simp_all add: succeeds_def)

lemma succeeds_bindE:
  "succeeds (bindE m f) = (\<exists>x. m = Inr x \<and> succeeds (f x))"
  by (cases m) (auto simp: bindE_def)

lemma collect_platforms_succeeds:
  "succeeds (collect_platforms data frames acc) = list_all (wf_frame data) frames"
proof (induction frames arbitrary: acc)
  case Nil
  show ?case by simp
next
  case (Cons frame frames)
  show ?case
    by (cases "py_get frame ''platform''"; cases "py_item data ''platform''")
       (simp_all add: Cons.IH bindE_def wf_frame_def)
qed

lemma report_stack_succeeds:
  "succeeds (report_stack data st cont r rv) = wf_trace data st"
proof (cases "py_get st ''frames''")
  case (Inl err)
  then show ?thesis by (simp add: report_stack_def bindE_def wf_trace_def)
next
  case (Inr fr)
  have "succeeds (report_stack data st cont r rv) =
      (\<exists>frames. (if truthy fr then py_iter fr else Inr []) = Inr frames
         \<and> succeeds (collect_platforms data frames []))"
    using Inr by (simp add: report_stack_def succeeds_bindE)
  also have "\<dots> = wf_trace data st"
    using Inr
    by (cases "py_iter fr") (simp_all add: wf_trace_def collect_platforms_succeeds)
  finally show ?thesis .
qed

lemma report_values_succeeds:
  "succeeds (report_values data mk i xs rv) =
     list_all (\<lambda>x. wf_optional_trace data x ''stacktrace'') xs"
proof (induction xs arbitrary: i rv)
  case Nil
  show ?case by simp
next
  case (Cons x xs)
  show ?case
  proof (cases "py_get x ''stacktrace''")
    case (Inl err)
    then show ?thesis by (simp add: bindE_def wf_optional_trace_def)
  next
    case (Inr st)
    show ?thesis
    proof (cases "truthy st")
      case True
      with Inr report_stack_succeeds [of data st x "mk i" rv] show ?thesis
        by (cases "report_stack data st x (mk i) rv")
           (simp_all add: bindE_def wf_optional_trace_def Cons.IH)
    next
      case False
      with Inr show ?thesis
        by (simp add: bindE_def wf_optional_trace_def Cons.IH)
    qed
  qed
qed

lemma report_section_succeeds:
  "succeeds (report_section data key mk rv) = wf_section data key"
proof (cases "py_get data key")
  case (Inl err)
  then show ?thesis by (simp add: report_section_def bindE_def wf_section_def)
next
  case (Inr c)
  show ?thesis
  proof (cases "truthy c")
    case True
    with Inr show ?thesis
      by (cases "py_item c ''values''"; cases "py_iter (projr (py_item c ''values''))")
         (simp_all add: report_section_def bindE_def wf_section_def report_values_succeeds)
  next
    case False
    with Inr show ?thesis
      by (simp add: report_section_def bindE_def wf_section_def)
  qed
qed

lemma find_succeeds: "succeeds (find_stacktraces_in_data data) = wf_payload data"
proof (cases "report_section data ''sentry.interfaces.Exception'' InException []")
  case (Inl err)
  with report_section_succeeds [of data "''sentry.interfaces.Exception''" InException "[]"]
  show ?thesis
    by (simp add: find_stacktraces_in_data_def bindE_def wf_payload_def)
next
  case (Inr rv1)
  with report_section_succeeds [of data "''sentry.interfaces.Exception''" InException "[]"]
  have e: "wf_section data ''sentry.interfaces.Exception''" by simp
  show ?thesis
  proof (cases "py_get data ''sentry.interfaces.Stacktrace''")
    case (Inl err)
    with Inr show ?thesis
      by (simp add: find_stacktraces_in_data_def bindE_def wf_payload_def
          wf_optional_trace_def)
  next
    case st: (Inr st)
    show ?thesis
    proof (cases "truthy st")
      case True
      with Inr st e report_stack_succeeds [of data st PNone TopLevel rv1] show ?thesis
        by (cases "report_stack data st PNone TopLevel rv1")
           (simp_all add: find_stacktraces_in_data_def bindE_def wf_payload_def
              wf_optional_trace_def report_section_succeeds)
    next
      case False
      with Inr st e show ?thesis
        by (simp add: find_stacktraces_in_data_def bindE_def wf_payload_def
              wf_optional_trace_def report_section_succeeds)
    qed
  qed
qed

declare ex_Inr_succeeds [simp del]

section \<open>Claims about the frame chain\<close>

text \<open>
  C1. For every frame, the chain tries the processors in registration order and stops
  at the first one whose \<^verbatim>\<open>process_frame\<close> call returns a value other than \<^verbatim>\<open>None\<close>:
  when the processors \<open>pre\<close> before \<open>p\<close> have each been called and have given no
  opinion, leaving the environment \<open>e'\<close>, and \<open>p\<close> returns \<open>rv\<close>, then the chain uses
  \<open>rv\<close>, whatever its fields are, and the state it leaves does not depend on the
  processors \<open>post\<close> after \<open>p\<close>: they are not called.
\<close>

theorem first_match_wins:
  assumes "chain_match pre frame info ridx (cenv s) = (None, e')"
    and "process_frame p frame info ridx (world e') = (Returns rv, w)"
    and "rv \<noteq> RNone"
  shows "try_processors (pre @ p # post) frame info ridx s =
           use_result rv (s\<lparr>cenv := e'\<lparr>world := w\<rparr>\<rparr>)"
proof -
  have "chain_match (pre @ p # post) frame info ridx (cenv s) = (Some rv, e'\<lparr>world := w\<rparr>)"
    using assms chain_match_append_None [of pre frame info ridx "cenv s" e' "p # post"]
      chain_match_hit [of p frame info ridx e' rv w post]
    by simp
  then show ?thesis
    by (simp add: try_processors_chain_match)
qed

theorem first_match_wins_witness:
  "chain_match [silent, faulty] frame_a info3 2 (cenv (init_state env0)) =
     (None, \<lparr>world = [(''silent'', 2), (''faulty'', 2)],
             logged = [''Failed to process frame''], timers = []\<rparr>)
   \<and> process_frame doubler frame_a info3 2 [(''silent'', 2), (''faulty'', 2)] =
     (Returns (RTuple (Some [frame_a, frame_a]) None None),
      [(''silent'', 2), (''faulty'', 2), (''doubler'', 2)])
   \<and> RTuple (Some [frame_a, frame_a]) None None \<noteq> RNone
   \<and> try_processors ([silent, faulty] @ doubler # [falsy, silent]) frame_a info3 2
       (init_state env0) =
     \<lparr>changed_raw = False, changed_processed = True, raw_frames = [],
      processed_frames = [frame_a, frame_a], all_errors = [], need_processed_frame = False,
      need_raw_frame = True, errors = None,
      cenv = \<lparr>world = [(''silent'', 2), (''faulty'', 2), (''doubler'', 2)],
               logged = [''Failed to process frame''], timers = []\<rparr>\<rparr>"
proof -
  have a: "chain_match [silent, faulty] frame_a info3 2 (cenv (init_state env0)) =
     (None, \<lparr>world = [(''silent'', 2), (''faulty'', 2)],
             logged = [''Failed to process frame''], timers = []\<rparr>)"
    by (simp add: silent_def faulty_def mk_processor_def init_state_def env0_def)
  have b: "process_frame doubler frame_a info3 2
       (world \<lparr>world = [(''silent'', 2), (''faulty'', 2)],
             logged = [''Failed to process frame''], timers = []\<rparr>) =
     (Returns (RTuple (Some [frame_a, frame_a]) None None),
      [(''silent'', 2), (''faulty'', 2), (''doubler'', 2)])"
    by (simp add: doubler_def mk_processor_def)
  have c: "RTuple (Some [frame_a, frame_a]) None None \<noteq> RNone"
    by simp
  show ?thesis
    using a b first_match_wins [OF a b c, of "[falsy, silent]"]
    by (simp add: use_result_def init_state_def env0_def)
qed

text \<open>
  C3. A \<^verbatim>\<open>process_frame\<close> call that raises is logged and treated as no opinion: the
  chain goes on with the remaining processors for the same frame. No such fault
  escapes the frame chain: a trace whose frame list can be read always yields a
  result. Faults do not change what is processed afterwards: the chain of a trace
  and the whole run give, apart from the log, what they give when every fault is
  replaced by a \<^verbatim>\<open>None\<close>, for all frames and all stack traces.
\<close>

theorem processor_fault_isolated:
  "(process_frame p frame info ridx (world (cenv s)) = (Raises, w) \<longrightarrow>
      try_processors (p # ps) frame info ridx s =
        try_processors ps frame info ridx
          (s\<lparr>cenv := (cenv s)\<lparr>world := w,
               logged := logged (cenv s) @ [''Failed to process frame'']\<rparr>\<rparr>))
   \<and> (py_item (stacktrace info) ''frames'' = Inr fr \<and> py_len fr = Inr n \<and>
        py_iter fr = Inr frames \<longrightarrow>
      (\<exists>out e'. process_single_stacktrace info processors e = Inr (out, e')))
   \<and> forget_out (process_single_stacktrace info processors e) =
       process_single_stacktrace info (map quiet processors) (forget_log e)
   \<and> forget_out (process_stacktraces data make_processors e) =
       process_stacktraces data (\<lambda>d infos. map quiet (make_processors d infos))
         (forget_log e)"
proof (intro conjI impI)
  assume "process_frame p frame info ridx (world (cenv s)) = (Raises, w)"
  then show "try_processors (p # ps) frame info ridx s =
        try_processors ps frame info ridx
          (s\<lparr>cenv := (cenv s)\<lparr>world := w,
               logged := logged (cenv s) @ [''Failed to process frame'']\<rparr>\<rparr>)"
    by simp
next
  assume "py_item (stacktrace info) ''frames'' = Inr fr \<and> py_len fr = Inr n \<and>
        py_iter fr = Inr frames"
  then show "\<exists>out e'. process_single_stacktrace info processors e = Inr (out, e')"
    by (simp add: process_single_stacktrace_frames Let_def)
next
  show "forget_out (process_single_stacktrace info processors e) =
       process_single_stacktrace info (map quiet processors) (forget_log e)"
    by (rule forget_process_single_stacktrace)
next
  show "forget_out (process_stacktraces data make_processors e) =
       process_stacktraces data (\<lambda>d infos. map quiet (make_processors d infos))
         (forget_log e)"
    by (rule forget_process_stacktraces)
qed

theorem processor_fault_isolated_witness:
  "process_frame faulty frame_a info3 0 (world (cenv (init_state env0))) =
     (Raises, [(''faulty'', 0)])
   \<and> try_processors [faulty, doubler] frame_a info3 0 (init_state env0) =
     try_processors [doubler] frame_a info3 0
       ((init_state env0)\<lparr>cenv := \<lparr>world = [(''faulty'', 0)],
           logged = [''Failed to process frame''], timers = []\<rparr>\<rparr>)
   \<and> py_item (stacktrace info3) ''frames'' = Inr (PList [frame_a, frame_b, frame_c])
   \<and> py_len (PList [frame_a, frame_b, frame_c]) = Inr 3
   \<and> py_iter (PList [frame_a, frame_b, frame_c]) = Inr [frame_a, frame_b, frame_c]
   \<and> (\<exists>out e'. process_single_stacktrace info3 [faulty, raw_only] env0 = Inr (out, e'))
   \<and> forget_out (process_single_stacktrace info3 [faulty, raw_only] env0) =
       process_single_stacktrace info3 [quiet faulty, quiet raw_only] env0
   \<and> forget_out (process_stacktraces event3 (\<lambda>d infos. [faulty, raw_only]) env0) =
       process_stacktraces event3 (\<lambda>d infos. [quiet faulty, quiet raw_only]) env0"
proof -
  have a: "process_frame faulty frame_a info3 0 (world (cenv (init_state env0))) =
     (Raises, [(''faulty'', 0)])"
    by (simp add: faulty_def mk_processor_def init_state_def env0_def)
  have b: "py_item (stacktrace info3) ''frames'' = Inr (PList [frame_a, frame_b, frame_c])
     \<and> py_len (PList [frame_a, frame_b, frame_c]) = Inr 3
     \<and> py_iter (PList [frame_a, frame_b, frame_c]) = Inr [frame_a, frame_b, frame_c]"
    by (simp add: info3_def trace3_def)
  have c: "forget_log env0 = env0"
    by (simp add: forget_log_def env0_def)
  have d: "(init_state env0)\<lparr>cenv := (cenv (init_state env0))\<lparr>world := [(''faulty'', 0)],
               logged := logged (cenv (init_state env0)) @ [''Failed to process frame'']\<rparr>\<rparr> =
       (init_state env0)\<lparr>cenv := \<lparr>world = [(''faulty'', 0)],
           logged = [''Failed to process frame''], timers = []\<rparr>\<rparr>"
    by (simp add: init_state_def env0_def)
  show ?thesis
    using a b c d
      processor_fault_isolated [where p = faulty and frame = frame_a and info = info3
        and ridx = 0 and s = "init_state env0" and w = "[(''faulty'', 0)]"
        and ps = "[doubler]" and fr = "PList [frame_a, frame_b, frame_c]" and n = 3
        and frames = "[frame_a, frame_b, frame_c]" and processors = "[faulty, raw_only]"
        and e = env0 and data = event3
        and make_processors = "\<lambda>d infos. [faulty, raw_only]"]
    by simp
qed

text \<open>
  C4. For a stack trace with frames \<open>f\<^sub>0 \<dots> f\<^sub>L\<^sub>-\<^sub>1\<close>, each output variant of the frame
  chain is the concatenation, in order of the frames, of what the match of each frame
  contributed for the variant, or of the frame itself when it contributed nothing.
  When the variant is reported as unchanged, this concatenation is the list of the
  original frames.
\<close>

theorem frame_order_preserved:
  assumes "py_item (stacktrace info) ''frames'' = Inr fr"
    and "py_len fr = Inr n" and "py_iter fr = Inr frames"
  shows "\<exists>new raw errs e'.
     process_single_stacktrace info ps e = Inr ((new, raw, errs), e') \<and>
     (case new of
        None \<Rightarrow> concat (map2 (\<lambda>f m. contribution (processed_of m) f) frames
                          (frame_matches ps info n 0 frames e)) = frames
      | Some v \<Rightarrow> v = dict_set ''frames''
                 (PList (concat (map2 (\<lambda>f m. contribution (processed_of m) f) frames
                          (frame_matches ps info n 0 frames e)))) (stacktrace info)) \<and>
     (case raw of
        None \<Rightarrow> concat (map2 (\<lambda>f m. contribution (raw_of m) f) frames
                          (frame_matches ps info n 0 frames e)) = frames
      | Some v \<Rightarrow> v = dict_set ''frames''
                 (PList (concat (map2 (\<lambda>f m. contribution (raw_of m) f) frames
                          (frame_matches ps info n 0 frames e)))) (stacktrace info))"
proof -
  let ?ms = "frame_matches ps info n 0 frames e"
  note pm = process_frames_match [of ps info n 0 frames "init_state e"]
  have ce: "cenv (init_state e) = e" by (simp add: init_state_def)
  have p0: "processed_frames (init_state e) = []" "raw_frames (init_state e) = []"
    "changed_processed (init_state e) = False" "changed_raw (init_state e) = False"
    by (simp_all add: init_state_def)
  have cp: "\<forall>m \<in> set ?ms. processed_of m = None \<Longrightarrow>
      concat (map2 (\<lambda>f m. contribution (processed_of m) f) frames ?ms) = frames"
    by (rule concat_singletons) simp_all
  have cr: "\<forall>m \<in> set ?ms. raw_of m = None \<Longrightarrow>
      concat (map2 (\<lambda>f m. contribution (raw_of m) f) frames ?ms) = frames"
    by (rule concat_singletons) simp_all
  show ?thesis
    using pm cp cr
    by (auto simp: process_single_stacktrace_frames [OF assms] Let_def ce p0)
qed

theorem frame_order_preserved_witness:
  "py_item (stacktrace info3) ''frames'' = Inr (PList [frame_a, frame_b, frame_c])
   \<and> py_len (PList [frame_a, frame_b, frame_c]) = Inr 3
   \<and> py_iter (PList [frame_a, frame_b, frame_c]) = Inr [frame_a, frame_b, frame_c]
   \<and> frame_matches [silent, doubler] info3 3 0 [frame_a, frame_b, frame_c] env0 =
       [Some (RTuple (Some [frame_a, frame_a]) None None),
        Some (RTuple (Some [frame_b, frame_b]) None None),
        Some (RTuple (Some [frame_c, frame_c]) None None)]
   \<and> (\<exists>e'. process_single_stacktrace info3 [silent, doubler] env0 =
         Inr ((Some (PDict [(''frames'',
                 PList [frame_a, frame_a, frame_b, frame_b, frame_c, frame_c])]),
               None, []), e'))"
proof -
  have a: "py_item (stacktrace info3) ''frames'' = Inr (PList [frame_a, frame_b, frame_c])"
    by (simp add: info3_def trace3_def)
  have b: "py_len (PList [frame_a, frame_b, frame_c]) = Inr 3" by simp
  have c: "py_iter (PList [frame_a, frame_b, frame_c]) = Inr [frame_a, frame_b, frame_c]"
    by simp
  have m: "frame_matches [silent, doubler] info3 3 0 [frame_a, frame_b, frame_c] env0 =
       [Some (RTuple (Some [frame_a, frame_a]) None None),
        Some (RTuple (Some [frame_b, frame_b]) None None),
        Some (RTuple (Some [frame_c, frame_c]) None None)]"
    by (simp add: silent_def doubler_def mk_processor_def env0_def)
  have d: "dict_set ''frames'' (PList [frame_a, frame_a, frame_b, frame_b, frame_c, frame_c])
             (stacktrace info3) =
           PDict [(''frames'', PList [frame_a, frame_a, frame_b, frame_b, frame_c, frame_c])]"
    by (simp add: dict_set_def info3_def trace3_def)
  from frame_order_preserved [OF a b c, of "[silent, doubler]" env0]
  obtain new raw errs e' where
    r: "process_single_stacktrace info3 [silent, doubler] env0 = Inr ((new, raw, errs), e')"
    and n: "case new of
        None \<Rightarrow> concat (map2 (\<lambda>f m. contribution (processed_of m) f)
                  [frame_a, frame_b, frame_c]
                  (frame_matches [silent, doubler] info3 3 0 [frame_a, frame_b, frame_c] env0))
                = [frame_a, frame_b, frame_c]
      | Some v \<Rightarrow> v = dict_set ''frames''
                 (PList (concat (map2 (\<lambda>f m. contribution (processed_of m) f)
                    [frame_a, frame_b, frame_c]
                    (frame_matches [silent, doubler] info3 3 0 [frame_a, frame_b, frame_c]
                       env0)))) (stacktrace info3)"
    by blast
  have e: "process_single_stacktrace info3 [silent, doubler] env0 =
       Inr ((Some (PDict [(''frames'',
                 PList [frame_a, frame_a, frame_b, frame_b, frame_c, frame_c])]),
             None, []),
            \<lparr>world = [(''silent'', 2), (''doubler'', 2), (''silent'', 1), (''doubler'', 1),
                       (''silent'', 0), (''doubler'', 0)],
             logged = [], timers = []\<rparr>)"
    by (simp add: process_single_stacktrace_def bindE_def info3_def trace3_def
        init_state_def env0_def frame_step_def use_result_def silent_def doubler_def
        mk_processor_def dict_set_def)
  from r e n show ?thesis
    using a b c m by simp
qed

text \<open>
  C2. The processed and the raw variant are tracked independently. For every frame,
  when its match contributed no processed expansion the frame itself is appended to
  the processed output, and when it contributed no raw expansion the frame itself
  is appended to the raw output. For a whole trace, the result of a variant is
  \<^verbatim>\<open>None\<close> exactly when no match of any frame contributed an expansion for that
  variant; the frames are never compared with the input.
\<close>

theorem variants_tracked_independently:
  assumes "py_item (stacktrace info) ''frames'' = Inr fr"
    and "py_len fr = Inr n" and "py_iter fr = Inr frames"
  shows "(\<exists>new raw errs e'.
       process_single_stacktrace info ps e = Inr ((new, raw, errs), e') \<and>
       (new = None) = (\<forall>m \<in> set (frame_matches ps info n 0 frames e). processed_of m = None) \<and>
       (raw = None) = (\<forall>m \<in> set (frame_matches ps info n 0 frames e). raw_of m = None))
     \<and> (\<forall>s frame idx m e1.
          chain_match ps frame info (n - int idx - 1) (cenv s) = (m, e1) \<longrightarrow>
          (processed_of m = None \<longrightarrow>
             processed_frames (frame_step ps info n idx frame s) =
               processed_frames s @ [frame]) \<and>
          (raw_of m = None \<longrightarrow>
             raw_frames (frame_step ps info n idx frame s) = raw_frames s @ [frame]))"
proof (intro conjI allI impI)
  note pm = process_frames_match [of ps info n 0 frames "init_state e"]
  have ce: "cenv (init_state e) = e" by (simp add: init_state_def)
  have p0: "changed_processed (init_state e) = False" "changed_raw (init_state e) = False"
    by (simp_all add: init_state_def)
  show "\<exists>new raw errs e'.
       process_single_stacktrace info ps e = Inr ((new, raw, errs), e') \<and>
       (new = None) = (\<forall>m \<in> set (frame_matches ps info n 0 frames e). processed_of m = None) \<and>
       (raw = None) = (\<forall>m \<in> set (frame_matches ps info n 0 frames e). raw_of m = None)"
    using pm by (simp add: process_single_stacktrace_frames [OF assms] Let_def ce p0)
next
  fix s :: "'a chain_state" and frame idx m e1
  assume cm: "chain_match ps frame info (n - int idx - 1) (cenv s) = (m, e1)"
  {
    assume "processed_of m = None"
    with frame_step_match [OF cm]
    show "processed_frames (frame_step ps info n idx frame s) = processed_frames s @ [frame]"
      by (simp add: contribution_def)
  }
  {
    assume "raw_of m = None"
    with frame_step_match [OF cm]
    show "raw_frames (frame_step ps info n idx frame s) = raw_frames s @ [frame]"
      by (simp add: contribution_def)
  }
qed

theorem variants_tracked_independently_witness:
  "py_item (stacktrace info3) ''frames'' = Inr (PList [frame_a, frame_b, frame_c])
   \<and> py_len (PList [frame_a, frame_b, frame_c]) = Inr 3
   \<and> py_iter (PList [frame_a, frame_b, frame_c]) = Inr [frame_a, frame_b, frame_c]
   \<and> frame_matches [raw_only] info3 3 0 [frame_a, frame_b, frame_c] env0 =
       [None, None, Some (RTuple None (Some [frame_c]) None)]
   \<and> (\<exists>raw errs e'. process_single_stacktrace info3 [raw_only] env0 =
         Inr ((None, Some raw, errs), e'))
   \<and> chain_match [raw_only] frame_c info3 (3 - int 2 - 1) (cenv (init_state env0)) =
       (Some (RTuple None (Some [frame_c]) None),
        \<lparr>world = [(''raw_only'', 0)], logged = [], timers = []\<rparr>)
   \<and> processed_of (Some (RTuple None (Some [frame_c]) None)) = None
   \<and> processed_frames (frame_step [raw_only] info3 3 2 frame_c (init_state env0)) =
       processed_frames (init_state env0) @ [frame_c]"
proof -
  have a: "py_item (stacktrace info3) ''frames'' = Inr (PList [frame_a, frame_b, frame_c])"
    by (simp add: info3_def trace3_def)
  have b: "py_len (PList [frame_a, frame_b, frame_c]) = Inr 3" by simp
  have c: "py_iter (PList [frame_a, frame_b, frame_c]) = Inr [frame_a, frame_b, frame_c]"
    by simp
  have m: "frame_matches [raw_only] info3 3 0 [frame_a, frame_b, frame_c] env0 =
       [None, None, Some (RTuple None (Some [frame_c]) None)]"
    by (simp add: raw_only_def mk_processor_def env0_def)
  have cm: "chain_match [raw_only] frame_c info3 (3 - int 2 - 1) (cenv (init_state env0)) =
       (Some (RTuple None (Some [frame_c]) None),
        \<lparr>world = [(''raw_only'', 0)], logged = [], timers = []\<rparr>)"
    by (simp add: raw_only_def mk_processor_def env0_def init_state_def)
  have p: "processed_of (Some (RTuple None (Some [frame_c]) None)) = None"
    "raw_of (Some (RTuple None (Some [frame_c]) None)) \<noteq> None"
    "processed_of None = None" "raw_of None = None"
    by (simp_all add: processed_of_def raw_of_def)
  note t = variants_tracked_independently [OF a b c, of "[raw_only]" env0]
  from t obtain new raw errs e' where
    r: "process_single_stacktrace info3 [raw_only] env0 = Inr ((new, raw, errs), e')"
    and n: "(new = None) =
       (\<forall>m \<in> set (frame_matches [raw_only] info3 3 0 [frame_a, frame_b, frame_c] env0).
          processed_of m = None)"
    and w: "(raw = None) =
       (\<forall>m \<in> set (frame_matches [raw_only] info3 3 0 [frame_a, frame_b, frame_c] env0).
          raw_of m = None)"
    by blast
  from n have "new = None"
    unfolding m by (simp add: p)
  moreover from w have "raw \<noteq> None"
    unfolding m by (simp add: p)
  then obtain v where "raw = Some v" by (cases raw) simp_all
  ultimately have ex: "\<exists>raw errs e'. process_single_stacktrace info3 [raw_only] env0 =
         Inr ((None, Some raw, errs), e')"
    using r by simp
  from t cm p(1) have
    "processed_frames (frame_step [raw_only] info3 3 2 frame_c (init_state env0)) =
       processed_frames (init_state env0) @ [frame_c]"
    by blast
  with a b c m ex cm p(1) show ?thesis by simp
qed

text \<open>
  C10. A result of \<^verbatim>\<open>process_frame\<close> that is not \<^verbatim>\<open>None\<close> but false, such as an empty
  tuple, is a match: the chain stops for the frame, and the state it leaves does
  not depend on the processors \<open>post\<close> that follow. The result contributes no
  expansion and no errors, so both variants receive the original frame.
\<close>

theorem falsy_result_is_match:
  assumes "chain_match pre frame info (n - int idx - 1) (cenv s) = (None, e')"
    and "process_frame p frame info (n - int idx - 1) (world e') = (Returns RFalsy, w)"
  shows "frame_step (pre @ p # post) info n idx frame s =
     s\<lparr>need_processed_frame := True, need_raw_frame := True, errors := None,
       processed_frames := processed_frames s @ [frame],
       raw_frames := raw_frames s @ [frame],
       cenv := e'\<lparr>world := w\<rparr>\<rparr>"
proof -
  have "chain_match (pre @ p # post) frame info (n - int idx - 1) (cenv s) =
          (Some RFalsy, e'\<lparr>world := w\<rparr>)"
    using assms
      chain_match_append_None [of pre frame info "n - int idx - 1" "cenv s" e' "p # post"]
    by simp
  then show ?thesis
    by (simp add: frame_step_def try_processors_chain_match use_result_def)
qed

theorem falsy_result_is_match_witness:
  "chain_match [silent, faulty] frame_c info3 (3 - int 2 - 1) (cenv (init_state env0)) =
     (None, \<lparr>world = [(''silent'', 0), (''faulty'', 0)],
             logged = [''Failed to process frame''], timers = []\<rparr>)
   \<and> process_frame falsy frame_c info3 (3 - int 2 - 1) [(''silent'', 0), (''faulty'', 0)] =
     (Returns RFalsy, [(''silent'', 0), (''faulty'', 0), (''falsy'', 0)])
   \<and> frame_step ([silent, faulty] @ falsy # [doubler]) info3 3 2 frame_c (init_state env0) =
     \<lparr>changed_raw = False, changed_processed = False, raw_frames = [frame_c],
      processed_frames = [frame_c], all_errors = [], need_processed_frame = True,
      need_raw_frame = True, errors = None,
      cenv = \<lparr>world = [(''silent'', 0), (''faulty'', 0), (''falsy'', 0)],
               logged = [''Failed to process frame''], timers = []\<rparr>\<rparr>"
proof -
  have a: "chain_match [silent, faulty] frame_c info3 (3 - int 2 - 1)
       (cenv (init_state env0)) =
     (None, \<lparr>world = [(''silent'', 0), (''faulty'', 0)],
             logged = [''Failed to process frame''], timers = []\<rparr>)"
    by (simp add: silent_def faulty_def mk_processor_def init_state_def env0_def)
  have b: "process_frame falsy frame_c info3 (3 - int 2 - 1)
       (world \<lparr>world = [(''silent'', 0), (''faulty'', 0)],
             logged = [''Failed to process frame''], timers = []\<rparr>) =
     (Returns RFalsy, [(''silent'', 0), (''faulty'', 0), (''falsy'', 0)])"
    by (simp add: falsy_def mk_processor_def)
  show ?thesis
    using a b falsy_result_is_match [OF a b, of "[doubler]"]
    by (simp add: init_state_def env0_def)
qed

section \<open>Claims about the locator\<close>

text \<open>
  C8. The records the locator returns are those of the stack traces of the payload
  in priority order: the exceptions in list order, then the top-level stack trace
  if present, then the threads in list order. The platform set of each record is
  the set of the platforms of its frames, each the frame's own platform or else the
  platform of the event. A stack trace with no frames has its record, with an empty
  platform set.
\<close>

theorem locator_priority_order:
  assumes "find_stacktraces_in_data data = Inr infos"
  shows "map record_of infos = expected_records data
     \<and> (\<forall>info \<in> set infos. platforms_ok data info)
     \<and> (\<forall>info \<in> set infos. frames_of (stacktrace info) = [] \<longrightarrow> platforms info = [])"
proof -
  from assms obtain rv1 st rv2 where
    s1: "report_section data ''sentry.interfaces.Exception'' InException [] = Inr rv1"
    and st: "py_get data ''sentry.interfaces.Stacktrace'' = Inr st"
    and s2: "(if truthy st then report_stack data st PNone TopLevel rv1 else Inr rv1) = Inr rv2"
    and s3: "report_section data ''threads'' InThread rv2 = Inr infos"
    by (auto simp: find_stacktraces_in_data_def bindE_Inr)
  from st have fo: "field_of data ''sentry.interfaces.Stacktrace'' = st"
    by (simp add: field_of_def)
  from report_section_ok [OF s1] have
    a: "map record_of rv1 =
          located InException 0 (section_values data ''sentry.interfaces.Exception'')"
       "\<forall>info \<in> set rv1. platforms_ok data info"
    by auto
  have b: "\<exists>new. rv2 = rv1 @ new \<and> map record_of new =
        (if truthy st then [(TopLevel, PNone, st)] else [])
      \<and> (\<forall>info \<in> set new. platforms_ok data info)"
  proof (cases "truthy st")
    case True
    with s2 report_stack_ok [of data st PNone TopLevel rv1 rv2] show ?thesis
      by auto
  next
    case False
    with s2 show ?thesis by simp
  qed
  from report_section_ok [OF s3] a b fo have
    c: "map record_of infos = expected_records data"
    and d: "\<forall>info \<in> set infos. platforms_ok data info"
    by (auto simp: expected_records_def)
  from d have "\<forall>info \<in> set infos. frames_of (stacktrace info) = [] \<longrightarrow> platforms info = []"
    by (auto simp: platforms_ok_def)
  with c d show ?thesis by simp
qed

theorem locator_priority_order_witness:
  "find_stacktraces_in_data event_mixed = Inr mixed_infos
   \<and> map record_of mixed_infos = expected_records event_mixed
   \<and> map ref mixed_infos = [InException 0, InException 2, TopLevel, InThread 1]
   \<and> map platforms mixed_infos =
       [[PStr ''javascript'', PStr ''cocoa''], [], [PStr ''cocoa''], [PStr ''cocoa'']]
   \<and> frames_of trace_empty = []"
proof -
  have f: "find_stacktraces_in_data event_mixed = Inr mixed_infos"
    by (simp add: find_stacktraces_in_data_def report_section_def report_stack_def
        bindE_def event_mixed_def mixed_infos_def trace_mixed_def trace_empty_def
        trace3_def frame_a_def frame_b_def frame_c_def frame_js_def)
  have e: "frames_of trace_empty = []"
    by (simp add: frames_of_def trace_empty_def)
  from locator_priority_order [OF f] have
    "map record_of mixed_infos = expected_records event_mixed"
    by simp
  with f e show ?thesis
    by (simp add: mixed_infos_def)
qed

section \<open>Claims about the run\<close>

text \<open>
  C6, as the claim states it, fails: a section that is present with an unexpected
  shape is not skipped. An exception container that is not empty and has no
  \<^verbatim>\<open>values\<close> list ends the locator, and with it the run, with a \<^verbatim>\<open>KeyError\<close>, even when
  no processor is acquired.
\<close>

theorem malformed_section_raises_counterexample:
  "find_stacktraces_in_data event_novalues = Inl KeyError
   \<and> process_stacktraces event_novalues no_processors env0 = Inl KeyError"
proof -
  have g: "find_stacktraces_in_data event_novalues = Inl KeyError"
    by (simp add: find_stacktraces_in_data_def report_section_def bindE_def
        event_novalues_def)
  have b: "process_stacktraces event_novalues no_processors env0 = Inl KeyError"
    by (simp add: process_stacktraces_def g bindE_def)
  from g b show ?thesis by simp
qed

text \<open>
  C6, amended. The locator returns for exactly the payloads whose present sections
  have the expected shape; sections that are absent, null or empty are skipped and
  are never an error. In particular a payload with none of the three sections has
  no stack trace. When the locator returns and no processor is acquired, the run
  returns \<^verbatim>\<open>None\<close> and changes nothing.
\<close>

theorem absent_sections_skipped:
  "succeeds (find_stacktraces_in_data data) = wf_payload data
   \<and> (\<not> truthy (field_of (PDict d) ''sentry.interfaces.Exception'') \<and>
       \<not> truthy (field_of (PDict d) ''sentry.interfaces.Stacktrace'') \<and>
       \<not> truthy (field_of (PDict d) ''threads'') \<longrightarrow>
       find_stacktraces_in_data (PDict d) = Inr [])
   \<and> (wf_payload data \<and> (\<forall>infos. make_processors data infos = []) \<longrightarrow>
       process_stacktraces data make_processors e = Inr (None, e))"
proof (intro conjI impI)
  show "succeeds (find_stacktraces_in_data data) = wf_payload data"
    by (rule find_succeeds)
next
  assume "\<not> truthy (field_of (PDict d) ''sentry.interfaces.Exception'') \<and>
       \<not> truthy (field_of (PDict d) ''sentry.interfaces.Stacktrace'') \<and>
       \<not> truthy (field_of (PDict d) ''threads'')"
  then show "find_stacktraces_in_data (PDict d) = Inr []"
    by (simp add: find_stacktraces_in_data_def report_section_def bindE_def field_of_def)
next
  assume a: "wf_payload data \<and> (\<forall>infos. make_processors data infos = [])"
  then have "succeeds (find_stacktraces_in_data data)"
    by (simp add: find_succeeds)
  then obtain infos where "find_stacktraces_in_data data = Inr infos"
    by (auto simp: ex_Inr_succeeds [symmetric])
  with a show "process_stacktraces data make_processors e = Inr (None, e)"
    by (simp add: process_stacktraces_def bindE_def)
qed

theorem absent_sections_skipped_witness:
  "wf_payload event_mixed
   \<and> succeeds (find_stacktraces_in_data event_mixed)
   \<and> \<not> truthy (field_of event_plain ''sentry.interfaces.Exception'')
   \<and> \<not> truthy (field_of event_plain ''sentry.interfaces.Stacktrace'')
   \<and> \<not> truthy (field_of event_plain ''threads'')
   \<and> find_stacktraces_in_data event_plain = Inr []
   \<and> wf_payload event_plain
   \<and> (\<forall>infos. no_processors event_plain infos = [])
   \<and> process_stacktraces event_plain no_processors env0 = Inr (None, env0)"
proof -
  have w: "wf_payload event_mixed"
    by (simp add: wf_payload_def wf_section_def wf_optional_trace_def wf_trace_def
        wf_frame_def event_mixed_def trace_mixed_def trace_empty_def trace3_def
        frame_a_def frame_b_def frame_c_def frame_js_def)
  have p: "event_plain = PDict [(''project'', PInt 1), (''platform'', PStr ''cocoa'')]"
    by (simp add: event_plain_def)
  have f: "\<not> truthy (field_of event_plain ''sentry.interfaces.Exception'') \<and>
       \<not> truthy (field_of event_plain ''sentry.interfaces.Stacktrace'') \<and>
       \<not> truthy (field_of event_plain ''threads'')"
    by (simp add: field_of_def event_plain_def)
  have v: "wf_payload event_plain"
    by (simp add: wf_payload_def wf_section_def wf_optional_trace_def event_plain_def)
  have n: "\<forall>infos. no_processors event_plain infos = []"
    by (simp add: no_processors_def)
  note t1 = absent_sections_skipped
    [where data = event_mixed
       and d = "[(''project'', PInt 1), (''platform'', PStr ''cocoa'')]"
       and make_processors = no_processors and e = env0]
  note t2 = absent_sections_skipped
    [where data = event_plain
       and d = "[(''project'', PInt 1), (''platform'', PStr ''cocoa'')]"
       and make_processors = no_processors and e = env0]
  from t1 w have s: "succeeds (find_stacktraces_in_data event_mixed)"
    by simp
  from t1 f have e: "find_stacktraces_in_data event_plain = Inr []"
    unfolding p by blast
  from t2 v n have r: "process_stacktraces event_plain no_processors env0 = Inr (None, env0)"
    by blast
  from w s f e v n r show ?thesis by simp
qed

text \<open>
  The locator reads the frame list of a stack trace with
  \<^verbatim>\<open>stacktrace.get('frames') or ()\<close> and so locates a stack trace without frame list;
  \<^verbatim>\<open>process_single_stacktrace\<close> reads the same list with \<^verbatim>\<open>stacktrace['frames']\<close>. For such
  a trace a run with a processor ends with a \<^verbatim>\<open>KeyError\<close>.
\<close>

lemma located_trace_without_frames_raises:
  "find_stacktraces_in_data event_noframes =
     Inr [\<lparr>stacktrace = trace_noframes,
           container = PDict [(''stacktrace'', trace_noframes)],
           platforms = [], ref = InException 0\<rparr>]
   \<and> process_stacktraces event_noframes (only silent) env0 = Inl KeyError"
proof -
  have f: "find_stacktraces_in_data event_noframes =
     Inr [\<lparr>stacktrace = trace_noframes,
           container = PDict [(''stacktrace'', trace_noframes)],
           platforms = [], ref = InException 0\<rparr>]"
    by (simp add: find_stacktraces_in_data_def report_section_def report_stack_def
        bindE_def event_noframes_def trace_noframes_def)
  have p: "process_single_stacktrace
       \<lparr>stacktrace = trace_noframes,
        container = PDict [(''stacktrace'', trace_noframes)],
        platforms = [], ref = InException 0\<rparr> [silent] e = Inl KeyError" for e
    by (simp add: process_single_stacktrace_def bindE_def trace_noframes_def)
  have pr: "py_item event_noframes ''project'' = Inr (PInt 1)"
    by (simp add: event_noframes_def)
  have a: "process_stacktraces event_noframes (only silent) env0 = Inl KeyError"
    by (simp add: process_stacktraces_def f only_def Let_def p pr bindE_def
        split: prod.split)
  from f a show ?thesis by simp
qed




text \<open>
  C5, as the claim states it, fails: a run with processors that changes nothing
  returns \<^verbatim>\<open>None\<close>, and so does the early exit of a run without processors. The two
  results are the same value.
\<close>

theorem no_changes_same_as_early_exit_counterexample:
  "process_stacktraces event3 (only silent) env0 =
     Inr (None, \<lparr>world = [(''silent'', 2), (''silent'', 1), (''silent'', 0)],
                 logged = [], timers = [(''dsym.process'', PInt 1)]\<rparr>)
   \<and> process_stacktraces event3 no_processors env0 = Inr (None, env0)"
proof -
  have s: "process_single_stacktrace info3 [silent] e =
      Inr ((None, None, []),
           e\<lparr>world := world e @ [(''silent'', 2), (''silent'', 1), (''silent'', 0)]\<rparr>)" for e
    by (simp add: process_single_stacktrace_def bindE_def info3_def trace3_def
        init_state_def frame_step_def silent_def mk_processor_def)
  have p: "preprocess_related_data silent w = (False, w)" for w
    by (simp add: silent_def mk_processor_def)
  have c: "close silent w = w" for w
    by (simp add: silent_def mk_processor_def)
  have a: "process_stacktraces event3 (only silent) env0 =
     Inr (None, \<lparr>world = [(''silent'', 2), (''silent'', 1), (''silent'', 0)],
                 logged = [], timers = [(''dsym.process'', PInt 1)]\<rparr>)"
    by (simp add: process_stacktraces_def find_event3 project_event3 metrics_key_info3
        only_def bindE_def Let_def s p c merge_result_def env0_def)
  have b: "process_stacktraces event3 no_processors env0 = Inr (None, env0)"
    by (simp add: process_stacktraces_def find_event3 no_processors_def bindE_def)
  from a b show ?thesis by simp
qed

text \<open>
  C5, amended. A run without processors returns \<^verbatim>\<open>None\<close> and leaves everything as it
  was. A run with processors that completes returns the payload, as the merge of
  the outputs has left it, when the run was marked as changed: by a
  \<^verbatim>\<open>preprocess_related_data\<close> hook, by a replacement of frames, by a raw stack trace
  attached to a container, or by appended errors. Otherwise it returns \<^verbatim>\<open>None\<close>, the
  value of the early exit.
\<close>

theorem run_result:
  assumes "process_stacktraces data make_processors e = Inr (res, e')"
    and "find_stacktraces_in_data data = Inr infos"
  shows "(make_processors data infos = [] \<longrightarrow> res = None \<and> e' = e)
     \<and> (make_processors data infos \<noteq> [] \<longrightarrow>
          (\<exists>project. py_item data ''project'' = Inr project \<and>
             (res \<noteq> None) =
               run_dirty (make_processors data infos) infos e (get_metrics_key infos) project
             \<and> (\<forall>d. res = Some d \<longrightarrow>
                  (\<exists>e2. process_infos infos (make_processors data infos) data
                     (fst (preprocess_all (make_processors data infos) False (world e)))
                     (e\<lparr>timers := timers e @ [(get_metrics_key infos, project)],
                        world := snd (preprocess_all (make_processors data infos) False
                                        (world e))\<rparr>) =
                     Inr (d, True, e2)))))"
proof (cases "make_processors data infos = []")
  case True
  with assms show ?thesis
    by (simp add: process_stacktraces_def bindE_def)
next
  case False
  let ?ps = "make_processors data infos"
  obtain c w where pa: "preprocess_all ?ps False (world e) = (c, w)"
    by (cases "preprocess_all ?ps False (world e)")
  from assms False pa obtain project d c' e2 where
    pr: "py_item data ''project'' = Inr project"
    and pi: "process_infos infos ?ps data c
        (e\<lparr>timers := timers e @ [(get_metrics_key infos, project)], world := w\<rparr>) =
        Inr (d, c', e2)"
    and res: "res = (if c' then Some d else None)"
    by (auto simp: process_stacktraces_def bindE_Inr Let_def)
  from preprocess_all_reports [of ?ps False "world e"] pa
  have c: "c = (True \<in> set (hook_reports ?ps (world e)))" by simp
  from pa have w: "snd (preprocess_all ?ps False (world e)) = w" by simp
  from process_infos_changed [OF pi] c w res
  have dirty: "(res \<noteq> None) = run_dirty ?ps infos e (get_metrics_key infos) project"
    by (simp add: run_dirty_def)
  have "\<forall>d'. res = Some d' \<longrightarrow>
      (\<exists>e2. process_infos infos ?ps data (fst (preprocess_all ?ps False (world e)))
         (e\<lparr>timers := timers e @ [(get_metrics_key infos, project)],
            world := snd (preprocess_all ?ps False (world e))\<rparr>) = Inr (d', True, e2))"
    using pi res pa by (auto split: if_splits)
  with pr dirty False show ?thesis by blast
qed

theorem run_result_witness:
  "process_stacktraces event3 (only reporter) env0 =
     Inr (Some (dict_set ''errors'' (PList [error_x]) event3),
          \<lparr>world = [(''reporter'', 2), (''reporter'', 1), (''reporter'', 0)],
           logged = [], timers = [(''dsym.process'', PInt 1)]\<rparr>)
   \<and> find_stacktraces_in_data event3 = Inr [info3]
   \<and> only reporter event3 [info3] \<noteq> []
   \<and> py_item event3 ''project'' = Inr (PInt 1)
   \<and> run_dirty (only reporter event3 [info3]) [info3] env0 (get_metrics_key [info3]) (PInt 1)"
proof -
  have s: "process_single_stacktrace info3 [reporter] e =
      Inr ((None, None, [error_x]),
           e\<lparr>world := world e @ [(''reporter'', 2), (''reporter'', 1), (''reporter'', 0)]\<rparr>)"
    for e
    by (simp add: process_single_stacktrace_def bindE_def info3_def trace3_def
        init_state_def frame_step_def use_result_def reporter_def mk_processor_def)
  have p: "preprocess_related_data reporter w = (False, w)" for w
    by (simp add: reporter_def mk_processor_def)
  have c: "close reporter w = w" for w
    by (simp add: reporter_def mk_processor_def)
  have x: "extend_errors event3 [error_x] = Inr (dict_set ''errors'' (PList [error_x]) event3)"
    by (simp add: extend_errors_def event3_def dict_set_def)
  have a: "process_stacktraces event3 (only reporter) env0 =
     Inr (Some (dict_set ''errors'' (PList [error_x]) event3),
          \<lparr>world = [(''reporter'', 2), (''reporter'', 1), (''reporter'', 0)],
           logged = [], timers = [(''dsym.process'', PInt 1)]\<rparr>)"
    by (simp add: process_stacktraces_def find_event3 project_event3 metrics_key_info3
        only_def bindE_def Let_def s p c x merge_result_def env0_def)
  have n: "only reporter event3 [info3] \<noteq> []"
    by (simp add: only_def)
  from run_result [OF a find_event3] n project_event3
  have "run_dirty (only reporter event3 [info3]) [info3] env0 (get_metrics_key [info3])
          (PInt 1)"
    by auto
  with a n find_event3 project_event3 show ?thesis by simp
qed

text \<open>
  C9. When the only match of a run, for the one stack trace of the payload, is a
  result \<^verbatim>\<open>(None, None, [err])\<close>, as when a processor claims only the frame with the
  reverse index 0 of a trace of three frames, the processed and the raw output of
  the chain are both \<^verbatim>\<open>None\<close>, and the run returns the payload, changed only in that
  its error list has gained the one entry: appending the errors marks the run as
  changed, and nothing stops the run.
\<close>

theorem error_only_match_marks_run:
  assumes "find_stacktraces_in_data data = Inr [info]"
    and "py_item (stacktrace info) ''frames'' = Inr fr"
    and "py_len fr = Inr n" and "py_iter fr = Inr frames"
    and "py_item data ''project'' = Inr project"
    and "make_processors data [info] \<noteq> []"
    and "True \<notin> set (hook_reports (make_processors data [info]) (world e))"
    and "\<forall>e1. matching (frame_matches (make_processors data [info]) info n 0 frames e1) =
           [RTuple None None (Some [err])]"
    and "error_list data = Some old"
  shows "(\<forall>e1. \<exists>e2. process_single_stacktrace info (make_processors data [info]) e1 =
            Inr ((None, None, [err]), e2))
     \<and> (\<exists>e'. process_stacktraces data make_processors e =
            Inr (Some (dict_set ''errors'' (PList (old @ [err])) data), e'))
     \<and> error_list (dict_set ''errors'' (PList (old @ [err])) data) = Some (old @ [err])"
proof -
  let ?ps = "make_processors data [info]"
  have one: "\<exists>e2. process_single_stacktrace info ?ps e1 = Inr ((None, None, [err]), e2)" for e1
    using single_error_match_output [OF assms(2-4)] assms(8) by blast
  obtain c w where pa: "preprocess_all ?ps False (world e) = (c, w)"
    by (cases "preprocess_all ?ps False (world e)")
  with preprocess_all_reports [of ?ps False "world e"] assms(7) have c: "c = False"
    by simp
  let ?e1 = "e\<lparr>timers := timers e @ [(get_metrics_key [info], project)], world := w\<rparr>"
  from one obtain e2 where
    s: "process_single_stacktrace info ?ps ?e1 = Inr ((None, None, [err]), e2)"
    by blast
  have m: "merge_result info (None, None, [err]) data False =
      Inr (dict_set ''errors'' (PList (old @ [err])) data, True)"
    by (simp add: merge_result_def extend_errors_list(1) [OF assms(9)] bindE_def)
  have "process_stacktraces data make_processors e =
      Inr (Some (dict_set ''errors'' (PList (old @ [err])) data),
           e2\<lparr>world := close_all ?ps (world e2)\<rparr>)"
    using assms(1,5,6) pa c s m
    by (simp add: process_stacktraces_def bindE_def Let_def)
  with one extend_errors_list(2) [OF assms(9)] show ?thesis
    by blast
qed

theorem error_only_match_marks_run_witness:
  "find_stacktraces_in_data event3 = Inr [info3]
   \<and> py_item (stacktrace info3) ''frames'' = Inr (PList [frame_a, frame_b, frame_c])
   \<and> py_len (PList [frame_a, frame_b, frame_c]) = Inr 3
   \<and> py_iter (PList [frame_a, frame_b, frame_c]) = Inr [frame_a, frame_b, frame_c]
   \<and> py_item event3 ''project'' = Inr (PInt 1)
   \<and> only reporter event3 [info3] \<noteq> []
   \<and> True \<notin> set (hook_reports (only reporter event3 [info3]) (world env0))
   \<and> (\<forall>e1. matching (frame_matches (only reporter event3 [info3]) info3 3 0
                [frame_a, frame_b, frame_c] e1) = [RTuple None None (Some [error_x])])
   \<and> error_list event3 = Some []
   \<and> (\<exists>e2. process_single_stacktrace info3 (only reporter event3 [info3]) env0 =
          Inr ((None, None, [error_x]), e2))
   \<and> (\<exists>e'. process_stacktraces event3 (only reporter) env0 =
          Inr (Some (dict_set ''errors'' (PList [error_x]) event3), e'))
   \<and> error_list (dict_set ''errors'' (PList [error_x]) event3) = Some [error_x]"
proof -
  have a: "py_item (stacktrace info3) ''frames'' = Inr (PList [frame_a, frame_b, frame_c])"
    by (simp add: info3_def trace3_def)
  have b: "py_len (PList [frame_a, frame_b, frame_c]) = Inr 3" by simp
  have c: "py_iter (PList [frame_a, frame_b, frame_c]) = Inr [frame_a, frame_b, frame_c]"
    by simp
  have n: "only reporter event3 [info3] \<noteq> []"
    by (simp add: only_def)
  have h: "True \<notin> set (hook_reports (only reporter event3 [info3]) (world env0))"
    by (simp add: only_def reporter_def mk_processor_def)
  have m: "\<forall>e1. matching (frame_matches (only reporter event3 [info3]) info3 3 0
                [frame_a, frame_b, frame_c] e1) = [RTuple None None (Some [error_x])]"
    by (simp add: only_def reporter_def mk_processor_def matching_def)
  have l: "error_list event3 = Some []"
    by (simp add: error_list_def event3_def)
  note t = error_only_match_marks_run
    [where make_processors = "only reporter" and data = event3 and info = info3
       and e = env0, OF find_event3 a b c project_event3 n h m l]
  from t find_event3 a b c project_event3 n h m l show ?thesis
    by simp
qed

end
